theory Spec2Isabelle
  imports Main
begin

section \<open>Documents on disk (types/index.ts)\<close>

text \<open>
  The dashboard reads four kinds of JSON documents below the user's \<open>~/.claude\<close>
  directory. Each is modelled by a record holding the fields the services read; the
  TypeScript casts \<open>JSON.parse(content) as T\<close> are taken at their word, so a parsed
  document has the declared shape. An optional field is an \<open>option\<close>; the fields the
  code guards with \<open>?.\<close> before reading are optional here as well.
\<close>

record Author =
  name :: string
  email :: "string option"

record InstalledPluginEntry =
  version :: string
  installedAt :: string
  lastUpdated :: string
  gitCommitSha :: string
  isLocal :: bool

text \<open>\<open>plugins\<close> is the object \<open>Record<string, InstalledPluginEntry[]>\<close>, kept as the
  list of its entries in \<open>Object.entries\<close> order.\<close>

record InstalledPluginsFile =
  plugins :: "(string \<times> InstalledPluginEntry list) list option"

record InstallCount =
  plugin :: string
  unique_installs :: int

record InstallCountsFile =
  counts :: "InstallCount list option"

record MarketplacePluginEntry =
  name :: string
  description :: string
  version :: "string option"
  author :: "Author option"
  category :: "string option"
  homepage :: "string option"
  tags :: "string list option"
  keywords' :: "string list option"

record MarketplaceFile =
  name :: "string option"
  plugins :: "MarketplacePluginEntry list option"

datatype SourceKind = Git | Github

record MarketplaceSource =
  source :: SourceKind
  url :: "string option"
  repo :: "string option"

record KnownMarketplace =
  source :: MarketplaceSource
  installLocation :: string
  lastUpdated :: string

type_synonym KnownMarketplacesFile = "(string \<times> KnownMarketplace) list"

text \<open>
  The settings document is a JSON object: the \<open>enabledPlugins\<close> object, when the
  document has one, as the list of its entries in the order of the document, and under
  the index signature \<open>[key: string]: unknown\<close> the other keys with their JSON values,
  those that stand before \<open>enabledPlugins\<close> and those that stand after it (when there is
  no \<open>enabledPlugins\<close> the other keys are \<open>keysBefore\<close> followed by \<open>keysAfter\<close>).
  \<open>enabledPlugins\<close> is read and written at plugin ids only; an id has the form
  \<open>name@marketplace\<close>, so it never names an inherited property of the object and is never
  an array index, which makes the object a list of its own keys in insertion order.
  Numbers are the integers.
\<close>

datatype Json = JNull | JBool bool | JNumber int | JString string
  | JArray "Json list" | JObject "(string \<times> Json) list"

record Settings =
  keysBefore :: "(string \<times> Json) list"
  enabledPlugins :: "(string \<times> bool) list option"
  keysAfter :: "(string \<times> Json) list"

section \<open>Aggregated records (types/index.ts)\<close>

record Marketplace =
  id' :: string
  name :: string
  source :: MarketplaceSource
  installLocation :: string
  lastUpdated :: string
  pluginCount :: "int option"

datatype PluginErrorType = Installation | Runtime | Config

record PluginError =
  pluginId :: string
  type :: PluginErrorType
  message :: string
  timestamp :: string
  details :: "string option"

record Plugin =
  id' :: string
  name :: string
  marketplace :: string
  description :: string
  version :: string
  installCount :: int
  isInstalled :: bool
  isEnabled :: bool
  installedAt :: "string option"
  lastUpdated :: "string option"
  category :: "string option"
  tags :: "string list option"
  author :: "Author option"
  homepage :: "string option"
  isLocal :: "bool option"
  gitCommitSha :: "string option"

section \<open>The file system and fileService.ts\<close>

text \<open>
  What \<open>readJsonFile\<close> can find at a path: no file, a file that cannot be read (the
  I/O error is rethrown), a file whose text \<open>JSON.parse\<close> rejects (with the parser's
  message), or a document.
\<close>

datatype 'a File = Missing | Unreadable string | Invalid string | Content 'a

text \<open>The errors the services throw, as values.\<close>

datatype Error =
    InvalidJson string string
  | ReadError string
  | SettingsNotFound string
  | WriteFailed string string

text \<open>
  The disk: the home directory, the four documents, and the \<open>marketplaces\<close> directory
  as the list of its subdirectories (in \<open>readdir\<close> order), each with the state of its
  \<open>.claude-plugin/marketplace.json\<close>; \<open>None\<close> when the directory does not exist.
  \<open>settingsWriteError\<close> is the error the file system would raise on writing the
  settings document (\<open>None\<close>: the write succeeds). \<open>settingsText\<close> is the text of
  the settings document, byte by byte; \<open>settingsFile\<close> is what \<open>readJsonFile\<close> finds
  there, for a document the value \<open>JSON.parse\<close> gives for that text.
\<close>

record Disk =
  homedir :: string
  settingsFile :: "Settings File"
  settingsText :: string
  settingsWriteError :: "string option"
  installedPluginsFile :: "InstalledPluginsFile File"
  installCountsCacheFile :: "InstallCountsFile File"
  knownMarketplacesFile :: "KnownMarketplacesFile File"
  marketplacesDir :: "(string \<times> MarketplaceFile File) list option"

subsection \<open>utils/paths.ts\<close>

fun path_join :: "string list \<Rightarrow> string" where
  "path_join [] = ''.''"
| "path_join [p] = p"
| "path_join (p # ps) = p @ ''/'' @ path_join ps"

definition CLAUDE_DIR :: "Disk \<Rightarrow> string" where
  "CLAUDE_DIR d = path_join [homedir d, ''.claude'']"

definition PLUGINS_DIR :: "Disk \<Rightarrow> string" where
  "PLUGINS_DIR d = path_join [CLAUDE_DIR d, ''plugins'']"

definition PATHS_settings :: "Disk \<Rightarrow> string" where
  "PATHS_settings d = path_join [CLAUDE_DIR d, ''settings.json'']"

definition PATHS_installedPlugins :: "Disk \<Rightarrow> string" where
  "PATHS_installedPlugins d = path_join [PLUGINS_DIR d, ''installed_plugins.json'']"

definition PATHS_knownMarketplaces :: "Disk \<Rightarrow> string" where
  "PATHS_knownMarketplaces d = path_join [PLUGINS_DIR d, ''known_marketplaces.json'']"

definition PATHS_installCountsCache :: "Disk \<Rightarrow> string" where
  "PATHS_installCountsCache d = path_join [PLUGINS_DIR d, ''install-counts-cache.json'']"

definition PATHS_marketplacesDir :: "Disk \<Rightarrow> string" where
  "PATHS_marketplacesDir d = path_join [PLUGINS_DIR d, ''marketplaces'']"

definition getMarketplaceJsonPath :: "Disk \<Rightarrow> string \<Rightarrow> string" where
  "getMarketplaceJsonPath d marketplaceId =
     path_join [PATHS_marketplacesDir d, marketplaceId, ''.claude-plugin'', ''marketplace.json'']"

subsection \<open>fileService.ts\<close>

text \<open>\<open>readJsonFile\<close>: \<open>null\<close> for a missing file, the document for a parsable one, and
  an exception otherwise; only the \<open>SyntaxError\<close> is rewrapped with the path.\<close>

fun readJsonFile :: "string \<Rightarrow> 'a File \<Rightarrow> Error + 'a option" where
  "readJsonFile filePath Missing = Inr None"
| "readJsonFile filePath (Unreadable msg) = Inl (ReadError msg)"
| "readJsonFile filePath (Invalid msg) = Inl (InvalidJson filePath msg)"
| "readJsonFile filePath (Content v) = Inr (Some v)"

text \<open>
  \<open>JSON.stringify(data, null, space)\<close> of the language, for a number \<open>space\<close>. Strings are
  quoted with the escapes of the language (the quote, the backslash and the control
  characters; every other byte is kept). \<open>gap\<close> is \<open>space\<close> blanks, ten at most. An
  empty array or object is \<open>[]\<close> or \<open>{}\<close>. With the empty \<open>gap\<close> the elements of a
  non-empty one follow each other after a comma and a key is followed by a colon; with
  another \<open>gap\<close> each element stands on a line of its own, one \<open>gap\<close> deeper than its
  parent, and a key is followed by a colon and a blank.
\<close>

definition hex_digit :: "nat \<Rightarrow> char" where
  "hex_digit n = (if n < 10 then char_of (48 + n) else char_of (87 + n))"

definition QuoteJSONString_char :: "char \<Rightarrow> string" where
  "QuoteJSONString_char c =
     (let n = (of_char c :: nat) in
      if n = 0x22 then [CHR 0x5C, CHR 0x22]
      else if n = 0x5C then [CHR 0x5C, CHR 0x5C]
      else if n = 0x08 then [CHR 0x5C, CHR ''b'']
      else if n = 0x09 then [CHR 0x5C, CHR ''t'']
      else if n = 0x0A then [CHR 0x5C, CHR ''n'']
      else if n = 0x0C then [CHR 0x5C, CHR ''f'']
      else if n = 0x0D then [CHR 0x5C, CHR ''r'']
      else if n < 0x20 then [CHR 0x5C, CHR ''u'', CHR ''0'', CHR ''0'', hex_digit (n div 16),
                            hex_digit (n mod 16)]
      else [c])"

definition QuoteJSONString :: "string \<Rightarrow> string" where
  "QuoteJSONString s = [CHR 0x22] @ concat (map QuoteJSONString_char s) @ [CHR 0x22]"

fun digits :: "nat \<Rightarrow> string" where
  "digits n =
     (if n < 10 then [char_of (48 + n)] else digits (n div 10) @ [char_of (48 + n mod 10)])"

fun join :: "string \<Rightarrow> string list \<Rightarrow> string" where
  "join sep [] = []"
| "join sep [x] = x"
| "join sep (x # xs) = x @ sep @ join sep xs"

fun SerializeJSONProperty :: "string \<Rightarrow> string \<Rightarrow> Json \<Rightarrow> string" where
  "SerializeJSONProperty gap indent JNull = ''null''"
| "SerializeJSONProperty gap indent (JBool b) = (if b then ''true'' else ''false'')"
| "SerializeJSONProperty gap indent (JNumber n) =
     (if n < 0 then ''-'' @ digits (nat (- n)) else digits (nat n))"
| "SerializeJSONProperty gap indent (JString s) = QuoteJSONString s"
| "SerializeJSONProperty gap indent (JArray vs) =
     (let stepback = indent;
          indent = indent @ gap;
          partial = map (\<lambda>v. SerializeJSONProperty gap indent v) vs
      in if partial = [] then ''[]''
         else if gap = [] then ''['' @ join '','' partial @ '']''
         else ''['' @ [CHR 0x0A] @ indent @ join ('','' @ [CHR 0x0A] @ indent) partial
              @ [CHR 0x0A] @ stepback @ '']'')"
| "SerializeJSONProperty gap indent (JObject kvs) =
     (let stepback = indent;
          indent = indent @ gap;
          partial = map (\<lambda>kv. QuoteJSONString (fst kv) @ '':'' @ (if gap = [] then [] else '' '')
                                @ SerializeJSONProperty gap indent (snd kv)) kvs
      in if partial = [] then ''{}''
         else if gap = [] then ''{'' @ join '','' partial @ ''}''
         else ''{'' @ [CHR 0x0A] @ indent @ join ('','' @ [CHR 0x0A] @ indent) partial
              @ [CHR 0x0A] @ stepback @ ''}'')"

text \<open>The settings document as the JSON object it is, and its text.\<close>

definition Settings_object :: "Settings \<Rightarrow> (string \<times> Json) list" where
  "Settings_object data =
     keysBefore data
     @ (case enabledPlugins data of
          None \<Rightarrow> []
        | Some en \<Rightarrow> [(''enabledPlugins'', JObject (map (\<lambda>kv. (fst kv, JBool (snd kv))) en))])
     @ keysAfter data"

definition JSON_stringify :: "Settings \<Rightarrow> nat \<Rightarrow> string" where
  "JSON_stringify data space =
     SerializeJSONProperty (replicate (min 10 space) CHR '' '') [] (JObject (Settings_object data))"

text \<open>\<open>writeJsonFile\<close>, at its one call site (the settings document): the text
  \<open>JSON.stringify(data, null, 2) + '\n'\<close> goes to a temporary sibling that is renamed over
  the document, so a failed write leaves the document as it was. Reading the written
  text back gives \<open>data\<close>.\<close>

definition writeJsonFile_settings :: "Settings \<Rightarrow> Disk \<Rightarrow> Error + Disk" where
  "writeJsonFile_settings data d =
     (case settingsWriteError d of
        Some msg \<Rightarrow> Inl (WriteFailed (PATHS_settings d) msg)
      | None \<Rightarrow>
          Inr (d\<lparr>settingsFile := Content data,
                 settingsText := JSON_stringify data 2 @ [CHR 0x0A]\<rparr>))"

definition directoryExists_marketplacesDir :: "Disk \<Rightarrow> bool" where
  "directoryExists_marketplacesDir d = (marketplacesDir d \<noteq> None)"

definition listDirectories_marketplacesDir :: "Disk \<Rightarrow> string list" where
  "listDirectories_marketplacesDir d =
     (case marketplacesDir d of None \<Rightarrow> [] | Some ds \<Rightarrow> map fst ds)"

text \<open>The state of the catalog document of a marketplace id.\<close>

definition catalogFile :: "Disk \<Rightarrow> string \<Rightarrow> MarketplaceFile File" where
  "catalogFile d marketplaceId =
     (case marketplacesDir d of
        None \<Rightarrow> Missing
      | Some ds \<Rightarrow> (case map_of ds marketplaceId of None \<Rightarrow> Missing | Some f \<Rightarrow> f))"

section \<open>settingsService.ts\<close>

definition readSettings :: "Disk \<Rightarrow> Error + Settings" where
  "readSettings d =
     (case readJsonFile (PATHS_settings d) (settingsFile d) of
        Inl e \<Rightarrow> Inl e
      | Inr None \<Rightarrow> Inl (SettingsNotFound (PATHS_settings d))
      | Inr (Some settings) \<Rightarrow> Inr settings)"

definition writeSettings :: "Settings \<Rightarrow> Disk \<Rightarrow> Error + Disk" where
  "writeSettings settings d = writeJsonFile_settings settings d"

definition getEnabledPlugins :: "Disk \<Rightarrow> Error + (string \<rightharpoonup> bool)" where
  "getEnabledPlugins d =
     (case readSettings d of
        Inl e \<Rightarrow> Inl e
      | Inr settings \<Rightarrow>
          Inr (case enabledPlugins settings of None \<Rightarrow> Map.empty | Some en \<Rightarrow> map_of en))"

definition isPluginEnabled :: "string \<Rightarrow> Disk \<Rightarrow> Error + bool" where
  "isPluginEnabled pid d =
     (case getEnabledPlugins d of
        Inl e \<Rightarrow> Inl e
      | Inr enabled \<Rightarrow> Inr (case enabled pid of None \<Rightarrow> False | Some b \<Rightarrow> b))"

text \<open>The assignment \<open>object[key] = value\<close>: an own key keeps its place, a new key goes
  to the end.\<close>

fun assign :: "'k \<Rightarrow> 'v \<Rightarrow> ('k \<times> 'v) list \<Rightarrow> ('k \<times> 'v) list" where
  "assign k v [] = [(k, v)]"
| "assign k v (kv # rest) = (if fst kv = k then (k, v) # rest else kv # assign k v rest)"

text \<open>\<open>if (!settings.enabledPlugins) settings.enabledPlugins = {}\<close>: the new key goes
  after every key of the document.\<close>

definition ensure_enabledPlugins :: "Settings \<Rightarrow> Settings" where
  "ensure_enabledPlugins settings =
     (case enabledPlugins settings of
        None \<Rightarrow> \<lparr> keysBefore = keysBefore settings @ keysAfter settings,
                  enabledPlugins = Some [], keysAfter = [] \<rparr>
      | Some en \<Rightarrow> settings)"

definition setPluginEnabled :: "string \<Rightarrow> bool \<Rightarrow> Disk \<Rightarrow> Error + Disk" where
  "setPluginEnabled pid enabled d =
     (case readSettings d of
        Inl e \<Rightarrow> Inl e
      | Inr settings \<Rightarrow>
          (let settings1 = ensure_enabledPlugins settings;
               en = (case enabledPlugins settings1 of None \<Rightarrow> [] | Some en \<Rightarrow> en)
           in writeSettings (settings1\<lparr>enabledPlugins := Some (assign pid enabled en)\<rparr>) d))"

text \<open>\<open>togglePlugin\<close> returns the new enabled state together with the disk it leaves.\<close>

definition togglePlugin :: "string \<Rightarrow> Disk \<Rightarrow> Error + (bool \<times> Disk)" where
  "togglePlugin pid d =
     (case isPluginEnabled pid d of
        Inl e \<Rightarrow> Inl e
      | Inr currentState \<Rightarrow>
          (case setPluginEnabled pid (\<not> currentState) d of
             Inl e \<Rightarrow> Inl e
           | Inr d' \<Rightarrow> Inr (\<not> currentState, d')))"

section \<open>pluginService.ts\<close>

subsection \<open>\<open>Array.prototype.sort\<close>\<close>

text \<open>
  The sort of the language is stable: an element moves in front of another only when the
  comparator returns a positive number for the pair in their current order. It is
  modelled as the insertion sort that puts each element, from the right, in front of the
  first element it does not compare greater than.
\<close>

fun insort_cmp :: "('a \<Rightarrow> 'a \<Rightarrow> int) \<Rightarrow> 'a \<Rightarrow> 'a list \<Rightarrow> 'a list" where
  "insort_cmp c x [] = [x]"
| "insort_cmp c x (y # ys) = (if c x y \<le> 0 then x # y # ys else y # insort_cmp c x ys)"

definition js_sort :: "('a \<Rightarrow> 'a \<Rightarrow> int) \<Rightarrow> 'a list \<Rightarrow> 'a list" where
  "js_sort c xs = foldr (insort_cmp c) xs []"

subsection \<open>\<open>loadAllPlugins\<close>\<close>

text \<open>The lookup map of the first installation entry of every plugin id that has one.\<close>

fun build_installedMap ::
  "(string \<times> InstalledPluginEntry list) list \<Rightarrow> (string \<rightharpoonup> InstalledPluginEntry)
     \<Rightarrow> (string \<rightharpoonup> InstalledPluginEntry)" where
  "build_installedMap [] installedMap = installedMap"
| "build_installedMap ((pid, entries) # rest) installedMap =
     build_installedMap rest
       (case entries of [] \<Rightarrow> installedMap | e # _ \<Rightarrow> installedMap(pid \<mapsto> e))"

fun build_countsMap :: "InstallCount list \<Rightarrow> (string \<rightharpoonup> int) \<Rightarrow> (string \<rightharpoonup> int)" where
  "build_countsMap [] countsMap = countsMap"
| "build_countsMap (entry # rest) countsMap =
     build_countsMap rest (countsMap(plugin entry \<mapsto> unique_installs entry))"

text \<open>\<open>a || b\<close> on optional strings: the empty string is falsy.\<close>

definition or_str :: "string option \<Rightarrow> string option \<Rightarrow> string option" where
  "or_str a b = (case a of None \<Rightarrow> b | Some s \<Rightarrow> if s = [] then b else Some s)"

definition or_default :: "string option \<Rightarrow> string \<Rightarrow> string" where
  "or_default a dflt = (case a of None \<Rightarrow> dflt | Some s \<Rightarrow> if s = [] then dflt else s)"

text \<open>The record pushed for one catalog entry of one marketplace.\<close>

definition mkPlugin ::
  "(string \<rightharpoonup> InstalledPluginEntry) \<Rightarrow> (string \<rightharpoonup> int) \<Rightarrow> (string \<rightharpoonup> bool)
     \<Rightarrow> string \<Rightarrow> MarketplacePluginEntry \<Rightarrow> Plugin" where
  "mkPlugin installedMap countsMap enabledMap mkt p =
     (let pid = MarketplacePluginEntry.name p @ ''@'' @ mkt;
          installedEntry = installedMap pid
      in \<lparr> id' = pid,
           name = MarketplacePluginEntry.name p,
           marketplace = mkt,
           description = or_default (Some (MarketplacePluginEntry.description p)) [],
           version =
             or_default
               (or_str (map_option InstalledPluginEntry.version installedEntry)
                  (MarketplacePluginEntry.version p))
               ''unknown'',
           installCount =
             (case countsMap pid of None \<Rightarrow> 0 | Some n \<Rightarrow> if n = 0 then 0 else n),
           isInstalled = (installedMap pid \<noteq> None),
           isEnabled = (case enabledMap pid of None \<Rightarrow> False | Some b \<Rightarrow> b),
           installedAt = map_option InstalledPluginEntry.installedAt installedEntry,
           lastUpdated = map_option InstalledPluginEntry.lastUpdated installedEntry,
           category = MarketplacePluginEntry.category p,
           tags =
             (case MarketplacePluginEntry.tags p of
                None \<Rightarrow> MarketplacePluginEntry.keywords' p
              | Some t \<Rightarrow> Some t),
           author = MarketplacePluginEntry.author p,
           homepage = MarketplacePluginEntry.homepage p,
           isLocal = map_option InstalledPluginEntry.isLocal installedEntry,
           gitCommitSha = map_option InstalledPluginEntry.gitCommitSha installedEntry \<rparr>)"

text \<open>The records one catalog contributes: none when the document is missing or has no
  \<open>plugins\<close>.\<close>

definition manifest_plugins ::
  "(string \<rightharpoonup> InstalledPluginEntry) \<Rightarrow> (string \<rightharpoonup> int) \<Rightarrow> (string \<rightharpoonup> bool)
     \<Rightarrow> string \<Rightarrow> MarketplaceFile option \<Rightarrow> Plugin list" where
  "manifest_plugins installedMap countsMap enabledMap mkt manifest =
     (case manifest of
        None \<Rightarrow> []
      | Some mf \<Rightarrow>
          (case MarketplaceFile.plugins mf of
             None \<Rightarrow> []
           | Some ps \<Rightarrow> map (mkPlugin installedMap countsMap enabledMap mkt) ps))"

text \<open>The loop over the marketplace directories; \<open>acc\<close> is the array the records are
  pushed onto. A catalog that cannot be parsed throws out of the loop.\<close>

fun scanMarketplaces ::
  "Disk \<Rightarrow> (string \<rightharpoonup> InstalledPluginEntry) \<Rightarrow> (string \<rightharpoonup> int) \<Rightarrow> (string \<rightharpoonup> bool)
     \<Rightarrow> string list \<Rightarrow> Plugin list \<Rightarrow> Error + Plugin list" where
  "scanMarketplaces d installedMap countsMap enabledMap [] acc = Inr acc"
| "scanMarketplaces d installedMap countsMap enabledMap (mkt # rest) acc =
     (case readJsonFile (getMarketplaceJsonPath d mkt) (catalogFile d mkt) of
        Inl e \<Rightarrow> Inl e
      | Inr manifest \<Rightarrow>
          scanMarketplaces d installedMap countsMap enabledMap rest
            (acc @ manifest_plugins installedMap countsMap enabledMap mkt manifest))"

definition installedMap_of :: "InstalledPluginsFile option \<Rightarrow> (string \<rightharpoonup> InstalledPluginEntry)" where
  "installedMap_of installed =
     (case installed of
        None \<Rightarrow> Map.empty
      | Some f \<Rightarrow>
          (case InstalledPluginsFile.plugins f of
             None \<Rightarrow> Map.empty
           | Some es \<Rightarrow> build_installedMap es Map.empty))"

definition countsMap_of :: "InstallCountsFile option \<Rightarrow> (string \<rightharpoonup> int)" where
  "countsMap_of cnts =
     (case cnts of
        None \<Rightarrow> Map.empty
      | Some f \<Rightarrow>
          (case InstallCountsFile.counts f of
             None \<Rightarrow> Map.empty
           | Some cs \<Rightarrow> build_countsMap cs Map.empty))"

definition loadAllPlugins :: "Disk \<Rightarrow> Error + Plugin list" where
  "loadAllPlugins d =
     (case readJsonFile (PATHS_installedPlugins d) (installedPluginsFile d) of
        Inl e \<Rightarrow> Inl e
      | Inr installed \<Rightarrow>
     (case readJsonFile (PATHS_installCountsCache d) (installCountsCacheFile d) of
        Inl e \<Rightarrow> Inl e
      | Inr cnts \<Rightarrow>
     (case getEnabledPlugins d of
        Inl e \<Rightarrow> Inl e
      | Inr enabledMap \<Rightarrow>
     (case (if directoryExists_marketplacesDir d
            then scanMarketplaces d (installedMap_of installed) (countsMap_of cnts)
                   enabledMap (listDirectories_marketplacesDir d) []
            else Inr []) of
        Inl e \<Rightarrow> Inl e
      | Inr ps \<Rightarrow>
          Inr (js_sort (\<lambda>a b. installCount b - installCount a) ps)))))"

subsection \<open>\<open>loadMarketplaces\<close>\<close>

text \<open>\<open>manifest?.plugins?.length || 0\<close> and \<open>manifest?.name || id\<close> for one known marketplace.\<close>

definition mkMarketplace :: "string \<Rightarrow> KnownMarketplace \<Rightarrow> MarketplaceFile option \<Rightarrow> Marketplace" where
  "mkMarketplace mid data manifest =
     \<lparr> Marketplace.id' = mid,
       Marketplace.name = or_default (Option.bind manifest MarketplaceFile.name) mid,
       Marketplace.source = KnownMarketplace.source data,
       Marketplace.installLocation = KnownMarketplace.installLocation data,
       Marketplace.lastUpdated = KnownMarketplace.lastUpdated data,
       Marketplace.pluginCount =
         Some (case Option.bind manifest MarketplaceFile.plugins of
                 None \<Rightarrow> 0
               | Some es \<Rightarrow> int (length es)) \<rparr>"

fun scanKnown ::
  "Disk \<Rightarrow> (string \<times> KnownMarketplace) list \<Rightarrow> Marketplace list \<Rightarrow> Error + Marketplace list" where
  "scanKnown d [] acc = Inr acc"
| "scanKnown d ((mid, data) # rest) acc =
     (case readJsonFile (getMarketplaceJsonPath d mid) (catalogFile d mid) of
        Inl e \<Rightarrow> Inl e
      | Inr manifest \<Rightarrow> scanKnown d rest (acc @ [mkMarketplace mid data manifest]))"

definition pluginCount_or_0 :: "Marketplace \<Rightarrow> int" where
  "pluginCount_or_0 m = (case pluginCount m of None \<Rightarrow> 0 | Some n \<Rightarrow> n)"

definition loadMarketplaces :: "Disk \<Rightarrow> Error + Marketplace list" where
  "loadMarketplaces d =
     (case readJsonFile (PATHS_knownMarketplaces d) (knownMarketplacesFile d) of
        Inl e \<Rightarrow> Inl e
      | Inr None \<Rightarrow> Inr []
      | Inr (Some known) \<Rightarrow>
          (case scanKnown d known [] of
             Inl e \<Rightarrow> Inl e
           | Inr ms \<Rightarrow> Inr (js_sort (\<lambda>a b. pluginCount_or_0 b - pluginCount_or_0 a) ms)))"

subsection \<open>\<open>searchPlugins\<close> and \<open>sortPlugins\<close>\<close>

text \<open>
  Three built-ins of the language that \<open>sortPlugins\<close> relies on are parameters of the
  model: \<open>String.prototype.localeCompare\<close> (the collation of the host's locale), the
  time value \<open>new Date(s).getTime()\<close> of a timestamp, which is \<open>NaN\<close> (\<open>None\<close>) for a
  string that is no date, and \<open>Array.prototype.sort\<close> as the engine implements it, which
  takes the comparator after \<open>SortCompare\<close> has turned a \<open>NaN\<close> result into \<open>+0\<close>.
\<close>

record JsRuntime =
  localeCompare :: "string \<Rightarrow> string \<Rightarrow> int"
  getTime :: "string \<Rightarrow> int option"
  sort :: "(Plugin \<Rightarrow> Plugin \<Rightarrow> int) \<Rightarrow> Plugin list \<Rightarrow> Plugin list"

text \<open>
  What the language promises of \<open>sort\<close>. A comparator is consistent on a set of values
  when comparing equal is an equivalence there and comparing less, and comparing
  greater, are transitive. For a comparator that is consistent on the elements, the
  result is the sorted order that keeps elements that compare equal in their original
  order, which is the order of \<open>js_sort\<close>; for any other comparator the order is left to
  the engine.
\<close>

definition consistent_comparator :: "('a \<Rightarrow> 'a \<Rightarrow> int) \<Rightarrow> 'a set \<Rightarrow> bool" where
  "consistent_comparator c S =
     ((\<forall>a \<in> S. c a a = 0)
      \<and> (\<forall>a \<in> S. \<forall>b \<in> S. c a b = 0 \<longrightarrow> c b a = 0)
      \<and> (\<forall>a \<in> S. \<forall>b \<in> S. \<forall>d \<in> S. c a b = 0 \<and> c b d = 0 \<longrightarrow> c a d = 0)
      \<and> (\<forall>a \<in> S. \<forall>b \<in> S. \<forall>d \<in> S. c a b < 0 \<and> c b d < 0 \<longrightarrow> c a d < 0)
      \<and> (\<forall>a \<in> S. \<forall>b \<in> S. \<forall>d \<in> S. c a b > 0 \<and> c b d > 0 \<longrightarrow> c a d > 0))"

definition conforming_sort ::
  "(('a \<Rightarrow> 'a \<Rightarrow> int) \<Rightarrow> 'a list \<Rightarrow> 'a list) \<Rightarrow> bool" where
  "conforming_sort srt =
     (\<forall>c xs. consistent_comparator c (set xs) \<longrightarrow> srt c xs = js_sort c xs)"

text \<open>
  The sort of V8, the engine of Node.js, on an array of fewer than 64 elements: the
  run at the start of the array is counted (and reversed when it is strictly
  descending), and every later element is put into the part before it at the place a
  binary search finds. Longer arrays are merged from several such runs; the model takes
  the order of \<open>js_sort\<close> for them.
\<close>

fun run_rest :: "('a \<Rightarrow> 'a \<Rightarrow> int) \<Rightarrow> bool \<Rightarrow> 'a \<Rightarrow> 'a list \<Rightarrow> 'a list \<times> 'a list" where
  "run_rest c isDescending previousElement [] = ([], [])"
| "run_rest c isDescending previousElement (currentElement # rest) =
     (let order = c currentElement previousElement
      in if (if isDescending then order \<ge> 0 else order < 0) then ([], currentElement # rest)
         else (let (run, after) = run_rest c isDescending currentElement rest
               in (currentElement # run, after)))"

fun CountAndMakeRun :: "('a \<Rightarrow> 'a \<Rightarrow> int) \<Rightarrow> 'a list \<Rightarrow> 'a list \<times> 'a list" where
  "CountAndMakeRun c (elementHigh # elementLow # rest) =
     (let isDescending = (c elementLow elementHigh < 0);
          (run, after) = run_rest c isDescending elementLow rest
      in (if isDescending then rev (elementHigh # elementLow # run)
          else elementHigh # elementLow # run, after))"
| "CountAndMakeRun c xs = (xs, [])"

function find_insertion_point :: "('a \<Rightarrow> 'a \<Rightarrow> int) \<Rightarrow> 'a \<Rightarrow> 'a list \<Rightarrow> nat \<Rightarrow> nat \<Rightarrow> nat" where
  "find_insertion_point c pivot xs left right =
     (if left < right
      then (let mid = left + (right - left) div 2
            in if c pivot (xs ! mid) < 0
               then find_insertion_point c pivot xs left mid
               else find_insertion_point c pivot xs (mid + 1) right)
      else left)"
  by pat_completeness auto
termination
  by (relation "measure (\<lambda>(c, pivot, xs, left, right). right - left)") auto

definition insert_pivot :: "('a \<Rightarrow> 'a \<Rightarrow> int) \<Rightarrow> 'a list \<Rightarrow> 'a \<Rightarrow> 'a list" where
  "insert_pivot c xs pivot =
     (let left = find_insertion_point c pivot xs 0 (length xs)
      in take left xs @ [pivot] @ drop left xs)"

definition BinaryInsertionSort :: "('a \<Rightarrow> 'a \<Rightarrow> int) \<Rightarrow> 'a list \<Rightarrow> 'a list \<Rightarrow> 'a list" where
  "BinaryInsertionSort c run after = foldl (insert_pivot c) run after"

definition v8_sort :: "('a \<Rightarrow> 'a \<Rightarrow> int) \<Rightarrow> 'a list \<Rightarrow> 'a list" where
  "v8_sort c xs =
     (if length xs < 2 then xs
      else if length xs < 64
      then (let (run, after) = CountAndMakeRun c xs in BinaryInsertionSort c run after)
      else js_sort c xs)"

text \<open>\<open>toLowerCase\<close> on the ASCII letters (other bytes are kept); \<open>includes\<close> is the
  substring test.\<close>

definition toLowerCase_char :: "char \<Rightarrow> char" where
  "toLowerCase_char c =
     (let n = (of_char c :: nat) in if 65 \<le> n \<and> n \<le> 90 then char_of (n + 32) else c)"

definition toLowerCase :: "string \<Rightarrow> string" where
  "toLowerCase s = map toLowerCase_char s"

fun startsWith :: "string \<Rightarrow> string \<Rightarrow> bool" where
  "startsWith s [] = True"
| "startsWith [] (q # qs) = False"
| "startsWith (c # cs) (q # qs) = (c = q \<and> startsWith cs qs)"

fun includes' :: "string \<Rightarrow> string \<Rightarrow> bool" where
  "includes' [] q = (q = [])"
| "includes' (c # cs) q = (startsWith (c # cs) q \<or> includes' cs q)"

definition searchPlugins :: "string \<Rightarrow> Plugin list \<Rightarrow> Plugin list" where
  "searchPlugins query allPlugins =
     (let lowerQuery = toLowerCase query
      in filter (\<lambda>p.
           includes' (toLowerCase (name p)) lowerQuery
           \<or> includes' (toLowerCase (description p)) lowerQuery
           \<or> includes' (toLowerCase (marketplace p)) lowerQuery
           \<or> (case category p of None \<Rightarrow> False | Some c \<Rightarrow> includes' (toLowerCase c) lowerQuery)
           \<or> (case tags p of None \<Rightarrow> False
               | Some ts \<Rightarrow> list_ex (\<lambda>t. includes' (toLowerCase t) lowerQuery) ts))
         allPlugins)"

datatype SortBy = Installs | Name | Date

datatype SortOrder = Asc | Desc

text \<open>The comparator \<open>sortPlugins\<close> hands to \<open>sort\<close>; a number that is \<open>NaN\<close> is
  \<open>None\<close>, and the difference with a \<open>NaN\<close> and the negation of a \<open>NaN\<close> are \<open>NaN\<close>.\<close>

definition dateOf :: "JsRuntime \<Rightarrow> Plugin \<Rightarrow> int option" where
  "dateOf rt a =
     (case installedAt a of
        None \<Rightarrow> Some 0
      | Some s \<Rightarrow> if s = [] then Some 0 else getTime rt s)"

definition minus_number :: "int option \<Rightarrow> int option \<Rightarrow> int option" where
  "minus_number x y =
     (case x of None \<Rightarrow> None | Some a \<Rightarrow> (case y of None \<Rightarrow> None | Some b \<Rightarrow> Some (a - b)))"

definition comparePlugins ::
  "JsRuntime \<Rightarrow> SortBy \<Rightarrow> SortOrder \<Rightarrow> Plugin \<Rightarrow> Plugin \<Rightarrow> int option" where
  "comparePlugins rt k ord a b =
     (let comparison =
        (case k of
           Installs \<Rightarrow> Some (installCount a - installCount b)
         | Name \<Rightarrow> Some (localeCompare rt (name a) (name b))
         | Date \<Rightarrow> minus_number (dateOf rt a) (dateOf rt b))
      in if ord = Asc then comparison else map_option uminus comparison)"

definition SortCompare :: "('a \<Rightarrow> 'a \<Rightarrow> int option) \<Rightarrow> 'a \<Rightarrow> 'a \<Rightarrow> int" where
  "SortCompare comparator x y = (case comparator x y of None \<Rightarrow> 0 | Some v \<Rightarrow> v)"

definition sortPlugins :: "JsRuntime \<Rightarrow> Plugin list \<Rightarrow> SortBy \<Rightarrow> SortOrder \<Rightarrow> Plugin list" where
  "sortPlugins rt ps k ord = sort rt (SortCompare (comparePlugins rt k ord)) ps"

text \<open>
  The same function with its arrays as references into a store (the address of an array
  is its index): \<open>[...plugins]\<close> allocates a copy, \<open>sort\<close> then works in place on
  the copy, and the reference of the copy is returned.
\<close>

type_synonym Store = "Plugin list list"

definition sortPlugins_store ::
  "JsRuntime \<Rightarrow> Store \<Rightarrow> nat \<Rightarrow> SortBy \<Rightarrow> SortOrder \<Rightarrow> (nat \<times> Store) option" where
  "sortPlugins_store rt st ref k ord =
     (if ref < length st
      then (let sorted = length st;
                st1 = st @ [st ! ref];
                st2 = st1[sorted := sort rt (SortCompare (comparePlugins rt k ord)) (st1 ! sorted)]
            in Some (sorted, st2))
      else None)"

section \<open>pluginActionsService.ts\<close>

datatype PluginAction = Install | Uninstall

record PluginActionResult =
  success :: bool
  message :: string
  error :: "string option"

section \<open>components/TabBar.tsx\<close>

datatype Tab = Discover | Installed | Marketplaces | Errors

datatype TabDirection = Next | Prev

definition TABS :: "Tab list" where
  "TABS = [Discover, Installed, Marketplaces, Errors]"

fun findIndex :: "('a \<Rightarrow> bool) \<Rightarrow> 'a list \<Rightarrow> int" where
  "findIndex P [] = -1"
| "findIndex P (x # xs) =
     (if P x then 0 else (let i = findIndex P xs in if i < 0 then -1 else i + 1))"

text \<open>Reading an array at a number: \<open>undefined\<close> outside the array. In
  \<open>getNextTab\<close> the index is always one of the four tabs (every tab is in \<open>TABS\<close> and
  the index is taken modulo their number), so the read there never leaves the array.\<close>

definition nth_opt :: "'a list \<Rightarrow> int \<Rightarrow> 'a option" where
  "nth_opt xs i = (if 0 \<le> i \<and> i < int (length xs) then Some (xs ! nat i) else None)"

definition getNextTab :: "Tab \<Rightarrow> TabDirection \<Rightarrow> Tab" where
  "getNextTab currentTab direction =
     (let currentIndex = findIndex (\<lambda>t. t = currentTab) TABS;
          tabCount = int (length TABS);
          newIndex = (if direction = Next
                      then (currentIndex + 1) mod tabCount
                      else (currentIndex - 1 + tabCount) mod tabCount)
      in case nth_opt TABS newIndex of Some t \<Rightarrow> t | None \<Rightarrow> currentTab)"

section \<open>app.tsx: the reducer\<close>

datatype Operation = Idle | Installing | Uninstalling

record AppState =
  activeTab :: Tab
  plugins :: "Plugin list"
  marketplaces :: "Marketplace list"
  errors :: "PluginError list"
  selectedIndex :: int
  searchQuery :: string
  sortBy :: SortBy
  sortOrder :: SortOrder
  loading :: bool
  error :: "string option"
  message :: "string option"
  operation :: Operation
  operationPluginId :: "string option"
  confirmUninstall :: bool

datatype Direction = Up | Down

datatype Action =
    SET_TAB Tab
  | SET_PLUGINS "Plugin list"
  | SET_MARKETPLACES "Marketplace list"
  | SET_ERRORS "PluginError list"
  | SET_SELECTED_INDEX int
  | MOVE_SELECTION Direction
  | SET_SEARCH_QUERY string
  | SET_SORT SortBy SortOrder
  | TOGGLE_PLUGIN_ENABLED string
  | UPDATE_PLUGIN Plugin
  | SET_LOADING bool
  | SET_ERROR "string option"
  | SET_MESSAGE "string option"
  | NEXT_TAB
  | PREV_TAB
  | START_OPERATION Operation string
  | END_OPERATION
  | SHOW_CONFIRM_UNINSTALL string
  | HIDE_CONFIRM_UNINSTALL

definition initialState :: AppState where
  "initialState =
     \<lparr> activeTab = Discover,
       plugins = [],
       marketplaces = [],
       errors = [],
       selectedIndex = 0,
       searchQuery = [],
       sortBy = Installs,
       sortOrder = Desc,
       loading = True,
       error = None,
       message = None,
       operation = Idle,
       operationPluginId = None,
       confirmUninstall = False \<rparr>"

definition getFilteredPlugins :: "JsRuntime \<Rightarrow> AppState \<Rightarrow> Plugin list" where
  "getFilteredPlugins rt s =
     (let ps = plugins s;
          ps = (if searchQuery s \<noteq> [] then searchPlugins (searchQuery s) ps else ps)
      in sortPlugins rt ps (sortBy s) (sortOrder s))"

text \<open>The items of a tab are plugins, marketplaces or errors (\<open>unknown[]\<close> in the
  source).\<close>

datatype Item = PluginItem Plugin | MarketplaceItem Marketplace | ErrorItem PluginError

definition getItemsForTab :: "JsRuntime \<Rightarrow> AppState \<Rightarrow> Item list" where
  "getItemsForTab rt s =
     (case activeTab s of
        Discover \<Rightarrow> map PluginItem (getFilteredPlugins rt s)
      | Installed \<Rightarrow> map PluginItem (filter isInstalled (plugins s))
      | Marketplaces \<Rightarrow> map MarketplaceItem (marketplaces s)
      | Errors \<Rightarrow> map ErrorItem (errors s))"

fun appReducer :: "JsRuntime \<Rightarrow> AppState \<Rightarrow> Action \<Rightarrow> AppState" where
  "appReducer rt s (SET_TAB t) =
     s\<lparr>activeTab := t, selectedIndex := 0, searchQuery := [], message := None\<rparr>"
| "appReducer rt s NEXT_TAB =
     s\<lparr>activeTab := getNextTab (activeTab s) Next, selectedIndex := 0, searchQuery := [],
       message := None\<rparr>"
| "appReducer rt s PREV_TAB =
     s\<lparr>activeTab := getNextTab (activeTab s) Prev, selectedIndex := 0, searchQuery := [],
       message := None\<rparr>"
| "appReducer rt s (SET_PLUGINS ps) = s\<lparr>plugins := ps, loading := False\<rparr>"
| "appReducer rt s (SET_MARKETPLACES ms) = s\<lparr>marketplaces := ms\<rparr>"
| "appReducer rt s (SET_ERRORS es) = s\<lparr>errors := es\<rparr>"
| "appReducer rt s (SET_SELECTED_INDEX i) = s\<lparr>selectedIndex := i, message := None\<rparr>"
| "appReducer rt s (MOVE_SELECTION dir) =
     (let items = getItemsForTab rt s;
          maxIndex = max 0 (int (length items) - 1)
      in if length items = 0 then s
         else (let newIndex = (if dir = Up
                               then max 0 (selectedIndex s - 1)
                               else min maxIndex (selectedIndex s + 1))
               in s\<lparr>selectedIndex := newIndex, message := None\<rparr>))"
| "appReducer rt s (SET_SEARCH_QUERY q) = s\<lparr>searchQuery := q, selectedIndex := 0\<rparr>"
| "appReducer rt s (SET_SORT k ord) = s\<lparr>sortBy := k, sortOrder := ord, selectedIndex := 0\<rparr>"
| "appReducer rt s (TOGGLE_PLUGIN_ENABLED pid) =
     s\<lparr>plugins := map (\<lambda>p. if id' p = pid then p\<lparr>isEnabled := \<not> isEnabled p\<rparr> else p) (plugins s)\<rparr>"
| "appReducer rt s (UPDATE_PLUGIN new) =
     s\<lparr>plugins := map (\<lambda>p. if id' p = id' new then new else p) (plugins s)\<rparr>"
| "appReducer rt s (SET_LOADING b) = s\<lparr>loading := b\<rparr>"
| "appReducer rt s (SET_ERROR e) = s\<lparr>error := e, loading := False\<rparr>"
| "appReducer rt s (SET_MESSAGE m) = s\<lparr>message := m\<rparr>"
| "appReducer rt s (START_OPERATION op pid) =
     s\<lparr>operation := op, operationPluginId := Some pid,
       message := Some (if op = Installing
                        then ''Installing '' @ pid @ ''...''
                        else ''Uninstalling '' @ pid @ ''...'')\<rparr>"
| "appReducer rt s END_OPERATION = s\<lparr>operation := Idle, operationPluginId := None\<rparr>"
| "appReducer rt s (SHOW_CONFIRM_UNINSTALL pid) =
     s\<lparr>confirmUninstall := True, operationPluginId := Some pid\<rparr>"
| "appReducer rt s HIDE_CONFIRM_UNINSTALL =
     s\<lparr>confirmUninstall := False, operationPluginId := None\<rparr>"

section \<open>app.tsx: the component\<close>

text \<open>
  What the component owns besides the reducer state: the search-mode flag
  (\<open>useState\<close>), the disk the services read and write, the plugin commands launched so
  far, whether \<open>exit()\<close> was called, and the error of an async handler that rejected
  with nobody awaiting it.
\<close>

record World =
  state :: AppState
  isSearchMode :: bool
  disk :: Disk
  spawned :: "(PluginAction \<times> string) list"
  exited :: bool
  rejected :: "Error option"

definition dispatch :: "JsRuntime \<Rightarrow> Action \<Rightarrow> World \<Rightarrow> World" where
  "dispatch rt a w = w\<lparr>state := appReducer rt (state w) a\<rparr>"

text \<open>\<open>error.message\<close> of the errors the services throw.\<close>

fun errorMessage :: "Error \<Rightarrow> string" where
  "errorMessage (InvalidJson filePath msg) = ''Invalid JSON in '' @ filePath @ '': '' @ msg"
| "errorMessage (ReadError msg) = msg"
| "errorMessage (SettingsNotFound filePath) =
     ''settings.json not found at '' @ filePath @ ''. Is Claude Code installed?''"
| "errorMessage (WriteFailed filePath msg) = ''Failed to write '' @ filePath @ '': '' @ msg"

text \<open>The three symbols of the status messages, as their UTF-8 bytes.\<close>

definition CHECK_MARK :: string where
  "CHECK_MARK = [CHR 0xE2, CHR 0x9C, CHR 0x85]"

definition CROSS_MARK :: string where
  "CROSS_MARK = [CHR 0xE2, CHR 0x9D, CHR 0x8C]"

definition WARNING_SIGN :: string where
  "WARNING_SIGN = [CHR 0xE2, CHR 0x9A, CHR 0xA0, CHR 0xEF, CHR 0xB8, CHR 0x8F]"

text \<open>The effect run on mount.\<close>

definition mount :: "JsRuntime \<Rightarrow> World \<Rightarrow> World" where
  "mount rt w =
     (case loadAllPlugins (disk w) of
        Inl e \<Rightarrow> dispatch rt (SET_ERROR (Some (errorMessage e))) w
      | Inr ps \<Rightarrow>
          (case loadMarketplaces (disk w) of
             Inl e \<Rightarrow> dispatch rt (SET_ERROR (Some (errorMessage e))) w
           | Inr ms \<Rightarrow> dispatch rt (SET_MARKETPLACES ms) (dispatch rt (SET_PLUGINS ps) w)))"

text \<open>
  \<open>handleInstall\<close> and \<open>handleUninstall\<close> run up to their \<open>await\<close>: the operation
  starts and the command is launched. The part after the \<open>await\<close> runs when the command
  has settled with \<open>result\<close>; an exception of \<open>loadAllPlugins\<close> there rejects the
  promise of the handler.
\<close>

definition handleInstall :: "JsRuntime \<Rightarrow> string \<Rightarrow> World \<Rightarrow> World" where
  "handleInstall rt pid w =
     (dispatch rt (START_OPERATION Installing pid) w)\<lparr>spawned := spawned w @ [(Install, pid)]\<rparr>"

definition handleUninstall :: "JsRuntime \<Rightarrow> string \<Rightarrow> World \<Rightarrow> World" where
  "handleUninstall rt pid w =
     (dispatch rt (START_OPERATION Uninstalling pid) w)\<lparr>spawned := spawned w @ [(Uninstall, pid)]\<rparr>"

definition failureMessage :: "PluginActionResult \<rightharpoonup> string" where
  "failureMessage result =
     Some (CROSS_MARK @ '' '' @ PluginActionResult.message result
           @ (case PluginActionResult.error result of
                None \<Rightarrow> []
              | Some e \<Rightarrow> if e = [] then [] else '': '' @ e))"

definition handle_settled :: "JsRuntime \<Rightarrow> PluginActionResult \<Rightarrow> World \<Rightarrow> World" where
  "handle_settled rt result w =
     (let w1 = dispatch rt END_OPERATION w
      in if success result
         then (case loadAllPlugins (disk w1) of
                 Inl e \<Rightarrow> w1\<lparr>rejected := Some e\<rparr>
               | Inr ps \<Rightarrow>
                   dispatch rt
                     (SET_MESSAGE (Some (CHECK_MARK @ '' '' @ PluginActionResult.message result)))
                     (dispatch rt (SET_PLUGINS ps) w1))
         else dispatch rt (SET_MESSAGE (failureMessage result)) w1)"

subsection \<open>\<open>useInput\<close>\<close>

text \<open>The key flags of a key press that the handler reads.\<close>

record Key =
  upArrow :: bool
  downArrow :: bool
  leftArrow :: bool
  rightArrow :: bool
  return :: bool
  escape :: bool
  ctrl :: bool
  tab :: bool
  backspace :: bool
  delete :: bool
  meta :: bool

text \<open>The plugin under the selection on the Discover and Installed tabs.\<close>

definition selectedPlugin :: "JsRuntime \<Rightarrow> AppState \<Rightarrow> Plugin option" where
  "selectedPlugin rt s =
     (let items = (if activeTab s = Installed
                   then filter isInstalled (plugins s)
                   else getFilteredPlugins rt s)
      in nth_opt items (selectedIndex s))"

definition truthy :: "string option \<Rightarrow> bool" where
  "truthy x = (case x of None \<Rightarrow> False | Some s \<Rightarrow> s \<noteq> [])"

definition togglePlugin_key :: "JsRuntime \<Rightarrow> World \<Rightarrow> World" where
  "togglePlugin_key rt w =
     (case selectedPlugin rt (state w) of
        None \<Rightarrow> w
      | Some sel \<Rightarrow>
          if isInstalled sel
          then (case togglePlugin (id' sel) (disk w) of
                  Inr (newState, d') \<Rightarrow>
                    dispatch rt
                      (SET_MESSAGE (Some (if newState
                                          then CHECK_MARK @ '' '' @ name sel @ '' enabled''
                                          else CROSS_MARK @ '' '' @ name sel @ '' disabled'')))
                      (dispatch rt (TOGGLE_PLUGIN_ENABLED (id' sel)) (w\<lparr>disk := d'\<rparr>))
                | Inl e \<Rightarrow> dispatch rt (SET_MESSAGE (Some (''Error: '' @ errorMessage e))) w)
          else w)"

definition nextSort :: "SortBy \<Rightarrow> SortBy" where
  "nextSort k = (case k of Installs \<Rightarrow> Name | Name \<Rightarrow> Date | Date \<Rightarrow> Installs)"

definition install_key :: "JsRuntime \<Rightarrow> World \<Rightarrow> World" where
  "install_key rt w =
     (case selectedPlugin rt (state w) of
        None \<Rightarrow> w
      | Some sel \<Rightarrow>
          if \<not> isInstalled sel then handleInstall rt (id' sel) w
          else dispatch rt (SET_MESSAGE (Some (WARNING_SIGN @ '' Plugin is already installed''))) w)"

definition uninstall_key :: "JsRuntime \<Rightarrow> World \<Rightarrow> World" where
  "uninstall_key rt w =
     (case selectedPlugin rt (state w) of
        None \<Rightarrow> w
      | Some sel \<Rightarrow>
          if isInstalled sel then dispatch rt (SHOW_CONFIRM_UNINSTALL (id' sel)) w
          else dispatch rt (SET_MESSAGE (Some (WARNING_SIGN @ '' Plugin is not installed''))) w)"

text \<open>The confirmation dialog branch; \<open>pid\<close> is \<open>state.operationPluginId\<close>.\<close>

definition confirm_key :: "JsRuntime \<Rightarrow> string \<Rightarrow> string \<Rightarrow> Key \<Rightarrow> World \<Rightarrow> World" where
  "confirm_key rt pid input key w =
     (if input = ''y'' \<or> input = ''Y''
      then handleUninstall rt pid (dispatch rt HIDE_CONFIRM_UNINSTALL w)
      else if input = ''n'' \<or> input = ''N'' \<or> escape key
      then dispatch rt (SET_MESSAGE (Some ''Uninstall cancelled''))
             (dispatch rt HIDE_CONFIRM_UNINSTALL w)
      else w)"

definition search_key :: "JsRuntime \<Rightarrow> string \<Rightarrow> Key \<Rightarrow> World \<Rightarrow> World" where
  "search_key rt input key w =
     (if escape key \<or> return key then w\<lparr>isSearchMode := False\<rparr>
      else if backspace key \<or> delete key
      then dispatch rt (SET_SEARCH_QUERY (butlast (searchQuery (state w)))) w
      else if input \<noteq> [] \<and> length input = 1 \<and> \<not> ctrl key \<and> \<not> meta key
      then dispatch rt (SET_SEARCH_QUERY (searchQuery (state w) @ input)) w
      else w)"

text \<open>The condition under which the handler treats a key as an answer to the dialog:
  \<open>state.confirmUninstall && state.operationPluginId\<close>.\<close>

definition confirming :: "AppState \<Rightarrow> bool" where
  "confirming s = (confirmUninstall s \<and> truthy (operationPluginId s))"

text \<open>The keys honoured outside the dialog and outside search mode.\<close>

definition navigation_key :: "JsRuntime \<Rightarrow> string \<Rightarrow> Key \<Rightarrow> World \<Rightarrow> World" where
  "navigation_key rt input key w =
     (let s = state w in
      if ctrl key \<and> input = ''p'' then dispatch rt (MOVE_SELECTION Up) w
      else if ctrl key \<and> input = ''n'' then dispatch rt (MOVE_SELECTION Down) w
      else if leftArrow key then dispatch rt PREV_TAB w
      else if rightArrow key then dispatch rt NEXT_TAB w
      else if tab key then dispatch rt NEXT_TAB w
      else if upArrow key then dispatch rt (MOVE_SELECTION Up) w
      else if downArrow key then dispatch rt (MOVE_SELECTION Down) w
      else if input = ''/'' \<and> activeTab s = Discover then w\<lparr>isSearchMode := True\<rparr>
      else if (input = '' '' \<or> return key) \<and> (activeTab s = Discover \<or> activeTab s = Installed)
      then togglePlugin_key rt w
      else if input = ''s'' \<and> activeTab s = Discover
      then dispatch rt (SET_SORT (nextSort (sortBy s)) (sortOrder s)) w
      else if input = ''S'' \<and> activeTab s = Discover
      then dispatch rt (SET_SORT (sortBy s) (if sortOrder s = Asc then Desc else Asc)) w
      else if escape key \<and> searchQuery s \<noteq> [] then dispatch rt (SET_SEARCH_QUERY []) w
      else if input = ''i'' \<and> (activeTab s = Discover \<or> activeTab s = Installed)
      then install_key rt w
      else if input = ''u'' \<and> (activeTab s = Discover \<or> activeTab s = Installed)
      then uninstall_key rt w
      else if input = ''q'' \<or> (ctrl key \<and> input = ''c'') then w\<lparr>exited := True\<rparr>
      else w)"

text \<open>The handler: nothing while an operation runs, then the dialog, then search mode,
  then the navigation keys.\<close>

definition useInput :: "JsRuntime \<Rightarrow> string \<Rightarrow> Key \<Rightarrow> World \<Rightarrow> World" where
  "useInput rt input key w =
     (let s = state w in
      if operation s \<noteq> Idle then w
      else if confirming s
      then confirm_key rt (the (operationPluginId s)) input key w
      else if isSearchMode w then search_key rt input key w
      else navigation_key rt input key w)"

subsection \<open>Events\<close>

text \<open>
  What can happen to the mounted component: a key press, or a launched command settling
  with a result after leaving the disk in some state. The component is rendered by
  \<open>render(<App />)\<close>, with the default options of ink: under \<open>exitOnCtrlC\<close> ink ends the
  session itself on Ctrl+C and does not call the handler; every other key press goes to
  \<open>useInput\<close>. Events are taken one render at a time: the handler that receives a key
  is the one subscribed at the render of the current state.
\<close>

datatype Event = KeyPress string Key | Settled PluginActionResult Disk

fun step :: "JsRuntime \<Rightarrow> World \<Rightarrow> Event \<Rightarrow> World" where
  "step rt w (KeyPress input key) =
     (if input = ''c'' \<and> ctrl key then w\<lparr>exited := True\<rparr> else useInput rt input key w)"
| "step rt w (Settled result d') = handle_settled rt result (w\<lparr>disk := d'\<rparr>)"

definition run :: "JsRuntime \<Rightarrow> World \<Rightarrow> Event list \<Rightarrow> World" where
  "run rt w evs = foldl (step rt) w evs"

text \<open>The component at start, over a disk, and after its mount effect.\<close>

definition initialWorld :: "Disk \<Rightarrow> World" where
  "initialWorld d =
     \<lparr> state = initialState, isSearchMode = False, disk = d, spawned = [], exited = False,
       rejected = None \<rparr>"

definition mounted :: "JsRuntime \<Rightarrow> Disk \<Rightarrow> World" where
  "mounted rt d = mount rt (initialWorld d)"

section \<open>Notions used in the statements\<close>

text \<open>What \<open>readJsonFile\<close> returns for a file it can read.\<close>

definition file_opt :: "'a File \<Rightarrow> 'a option" where
  "file_opt f = (case f of Content v \<Rightarrow> Some v | _ \<Rightarrow> None)"

text \<open>The entries of the installed-plugin registry, and the entries of the catalog of a
  marketplace id; none when the document is absent or has no \<open>plugins\<close>.\<close>

definition registry :: "Disk \<Rightarrow> (string \<times> InstalledPluginEntry list) list" where
  "registry d =
     (case installedPluginsFile d of
        Content f \<Rightarrow> (case InstalledPluginsFile.plugins f of None \<Rightarrow> [] | Some es \<Rightarrow> es)
      | _ \<Rightarrow> [])"

definition catalog :: "Disk \<Rightarrow> string \<Rightarrow> MarketplacePluginEntry list" where
  "catalog d mkt =
     (case catalogFile d mkt of
        Content mf \<Rightarrow> (case MarketplaceFile.plugins mf of None \<Rightarrow> [] | Some es \<Rightarrow> es)
      | _ \<Rightarrow> [])"

text \<open>A file \<open>readJsonFile\<close> does not throw on.\<close>

definition readable :: "'a File \<Rightarrow> bool" where
  "readable f = (case f of Missing \<Rightarrow> True | Content v \<Rightarrow> True | _ \<Rightarrow> False)"


text \<open>The keys of the settings document other than \<open>enabledPlugins\<close>, in their order.\<close>

definition otherKeys :: "Settings \<Rightarrow> (string \<times> Json) list" where
  "otherKeys s = keysBefore s @ keysAfter s"

text \<open>The disk after two calls of \<open>togglePlugin\<close> for a plugin id (the disk a failed call
  leaves is the one it found).\<close>

definition toggle_twice :: "string \<Rightarrow> Disk \<Rightarrow> Disk" where
  "toggle_twice pid d =
     (case togglePlugin pid d of
        Inl e \<Rightarrow> d
      | Inr r1 \<Rightarrow> (case togglePlugin pid (snd r1) of Inl e \<Rightarrow> snd r1 | Inr r2 \<Rightarrow> snd r2))"

section \<open>Sample documents and sessions\<close>

definition entry_context7 :: MarketplacePluginEntry where
  "entry_context7 =
     \<lparr> MarketplacePluginEntry.name = ''context7'',
       MarketplacePluginEntry.description = ''Up-to-date documentation lookup'',
       MarketplacePluginEntry.version = Some ''1.2.0'',
       MarketplacePluginEntry.author = None,
       MarketplacePluginEntry.category = Some ''docs'',
       MarketplacePluginEntry.homepage = None,
       MarketplacePluginEntry.tags = None,
       MarketplacePluginEntry.keywords' = None \<rparr>"

definition catalog_official :: MarketplaceFile where
  "catalog_official =
     \<lparr> MarketplaceFile.name = Some ''claude-plugins-official'',
       MarketplaceFile.plugins = Some [entry_context7] \<rparr>"

definition settings_enabled :: Settings where
  "settings_enabled =
     \<lparr> keysBefore = [(''theme'', JString ''dark'')],
       enabledPlugins = Some [(''context7@claude-plugins-official'', True)],
       keysAfter = [] \<rparr>"

definition disk_official :: Disk where
  "disk_official =
     \<lparr> homedir = ''/home/u'',
       settingsFile = Content settings_enabled,
       settingsText = JSON_stringify settings_enabled 2 @ [CHR 0x0A],
       settingsWriteError = None,
       installedPluginsFile = Missing,
       installCountsCacheFile = Missing,
       knownMarketplacesFile = Missing,
       marketplacesDir = Some [(''claude-plugins-official'', Content catalog_official)] \<rparr>"

definition plugin_context7 :: Plugin where
  "plugin_context7 =
     \<lparr> id' = ''context7@claude-plugins-official'',
       name = ''context7'',
       marketplace = ''claude-plugins-official'',
       description = ''Up-to-date documentation lookup'',
       version = ''1.2.0'',
       installCount = 0,
       isInstalled = False,
       isEnabled = True,
       installedAt = None,
       lastUpdated = None,
       category = Some ''docs'',
       tags = None,
       author = None,
       homepage = None,
       isLocal = None,
       gitCommitSha = None \<rparr>"

definition disk_broken_catalog :: Disk where
  "disk_broken_catalog =
     disk_official\<lparr>marketplacesDir :=
       Some [(''broken'', Invalid ''Unexpected end of JSON input''),
             (''claude-plugins-official'', Content catalog_official)]\<rparr>"

definition disk_missing_catalog :: Disk where
  "disk_missing_catalog =
     disk_official\<lparr>marketplacesDir :=
       Some [(''empty'', Missing),
             (''claude-plugins-official'', Content catalog_official)]\<rparr>"

definition disk_duplicate_entry :: Disk where
  "disk_duplicate_entry =
     disk_official\<lparr>marketplacesDir :=
       Some [(''claude-plugins-official'',
              Content \<lparr> MarketplaceFile.name = None,
                        MarketplaceFile.plugins = Some [entry_context7, entry_context7] \<rparr>)]\<rparr>"

definition disk_empty_installation :: Disk where
  "disk_empty_installation =
     disk_official\<lparr>installedPluginsFile :=
       Content \<lparr> InstalledPluginsFile.plugins = Some [(''context7@claude-plugins-official'', [])] \<rparr>\<rparr>"

definition entry_playwright :: MarketplacePluginEntry where
  "entry_playwright =
     \<lparr> MarketplacePluginEntry.name = ''playwright'',
       MarketplacePluginEntry.description = ''Browser automation'',
       MarketplacePluginEntry.version = None,
       MarketplacePluginEntry.author = None,
       MarketplacePluginEntry.category = None,
       MarketplacePluginEntry.homepage = None,
       MarketplacePluginEntry.tags = Some [''testing''],
       MarketplacePluginEntry.keywords' = None \<rparr>"

definition installation_sample :: InstalledPluginEntry where
  "installation_sample =
     \<lparr> InstalledPluginEntry.version = ''1.2.0'',
       InstalledPluginEntry.installedAt = ''2025-01-01T00:00:00.000Z'',
       InstalledPluginEntry.lastUpdated = ''2025-01-01T00:00:00.000Z'',
       InstalledPluginEntry.gitCommitSha = ''abc123'',
       InstalledPluginEntry.isLocal = False \<rparr>"

definition disk_two_installed :: Disk where
  "disk_two_installed =
     disk_official\<lparr>
       marketplacesDir :=
         Some [(''claude-plugins-official'',
                Content \<lparr> MarketplaceFile.name = None,
                          MarketplaceFile.plugins = Some [entry_context7, entry_playwright] \<rparr>)],
       installedPluginsFile :=
         Content \<lparr> InstalledPluginsFile.plugins =
           Some [(''context7@claude-plugins-official'', [installation_sample]),
                 (''playwright@claude-plugins-official'', [installation_sample])] \<rparr>\<rparr>"

definition disk_one_installed :: Disk where
  "disk_one_installed =
     disk_two_installed\<lparr>
       installedPluginsFile :=
         Content \<lparr> InstalledPluginsFile.plugins =
           Some [(''context7@claude-plugins-official'', [installation_sample])] \<rparr>\<rparr>"

fun compare_bytes :: "string \<Rightarrow> string \<Rightarrow> int" where
  "compare_bytes [] [] = 0"
| "compare_bytes [] (y # ys) = -1"
| "compare_bytes (x # xs) [] = 1"
| "compare_bytes (x # xs) (y # ys) =
     (if (of_char x :: nat) < of_char y then -1
      else if (of_char y :: nat) < of_char x then 1
      else compare_bytes xs ys)"

text \<open>The time values of the timestamps of the samples; any other string counts as no
  date.\<close>

definition getTime_sample :: "string \<Rightarrow> int option" where
  "getTime_sample s =
     (if s = ''2025-01-01T00:00:00.000Z'' then Some 1735689600000
      else if s = ''2025-01-02T00:00:00.000Z'' then Some 1735776000000
      else if s = ''2025-01-03T00:00:00.000Z'' then Some 1735862400000
      else if s = ''2025-01-04T00:00:00.000Z'' then Some 1735948800000
      else if s = ''2025-01-05T00:00:00.000Z'' then Some 1736035200000
      else if s = ''2025-01-06T00:00:00.000Z'' then Some 1736121600000
      else None)"

text \<open>A runtime whose \<open>sort\<close> is the stable order itself, and the runtime of Node.js.\<close>

definition runtime_sample :: JsRuntime where
  "runtime_sample =
     \<lparr> localeCompare = compare_bytes,
       getTime = getTime_sample,
       sort = js_sort \<rparr>"

definition no_key :: Key where
  "no_key =
     \<lparr> upArrow = False, downArrow = False, leftArrow = False, rightArrow = False,
       return = False, escape = False, ctrl = False, tab = False, backspace = False,
       delete = False, meta = False \<rparr>"

definition uninstalled_playwright :: PluginActionResult where
  "uninstalled_playwright =
     \<lparr> success = True,
       PluginActionResult.message = ''Uninstalled playwright@claude-plugins-official'',
       PluginActionResult.error = None \<rparr>"

definition world_installed_tab :: World where
  "world_installed_tab =
     run runtime_sample (mounted runtime_sample disk_two_installed)
       [KeyPress [] (no_key\<lparr>rightArrow := True\<rparr>), KeyPress [] (no_key\<lparr>downArrow := True\<rparr>)]"

definition world_confirming :: World where
  "world_confirming = step runtime_sample world_installed_tab (KeyPress ''u'' no_key)"

definition world_uninstalling :: World where
  "world_uninstalling = step runtime_sample world_confirming (KeyPress ''y'' no_key)"

definition world_after_uninstall :: World where
  "world_after_uninstall =
     step runtime_sample world_uninstalling (Settled uninstalled_playwright disk_one_installed)"

definition plugin_playwright :: Plugin where
  "plugin_playwright =
     \<lparr> id' = ''playwright@claude-plugins-official'',
       name = ''playwright'',
       marketplace = ''claude-plugins-official'',
       description = ''Browser automation'',
       version = ''1.2.0'',
       installCount = 0,
       isInstalled = True,
       isEnabled = False,
       installedAt = Some ''2025-01-01T00:00:00.000Z'',
       lastUpdated = Some ''2025-01-01T00:00:00.000Z'',
       category = None,
       tags = Some [''testing''],
       author = None,
       homepage = None,
       isLocal = Some False,
       gitCommitSha = Some ''abc123'' \<rparr>"

definition plugin_context7_installed :: Plugin where
  "plugin_context7_installed =
     plugin_context7\<lparr>
       isInstalled := True,
       installedAt := Some ''2025-01-01T00:00:00.000Z'',
       lastUpdated := Some ''2025-01-01T00:00:00.000Z'',
       isLocal := Some False,
       gitCommitSha := Some ''abc123''\<rparr>"

definition plugin_context7_community :: Plugin where
  "plugin_context7_community =
     plugin_context7\<lparr>
       id' := ''context7@community'',
       marketplace := ''community'',
       isEnabled := False\<rparr>"

definition disk_two_marketplaces :: Disk where
  "disk_two_marketplaces =
     disk_two_installed\<lparr>
       marketplacesDir :=
         Some [(''claude-plugins-official'',
                Content \<lparr> MarketplaceFile.name = None,
                          MarketplaceFile.plugins = Some [entry_context7, entry_playwright] \<rparr>),
               (''community'',
                Content \<lparr> MarketplaceFile.name = None,
                          MarketplaceFile.plugins = Some [entry_context7] \<rparr>)]\<rparr>"

text \<open>Three records for the sort: one never installed, two installed at the same time.\<close>

definition plugins_sample :: "Plugin list" where
  "plugins_sample =
     [plugin_context7\<lparr>installCount := 5\<rparr>,
      plugin_playwright\<lparr>installCount := 7\<rparr>,
      plugin_playwright\<lparr>installCount := 5\<rparr>]"

text \<open>Eight installed records, named \<open>p1\<close> to \<open>p8\<close>; the timestamp of \<open>p5\<close> is no date,
  and \<open>p6\<close> and \<open>p8\<close> have the same timestamp.\<close>

definition installed_on :: "string \<Rightarrow> string \<Rightarrow> Plugin" where
  "installed_on nm ts =
     plugin_playwright\<lparr>id' := nm @ ''@claude-plugins-official'', name := nm,
       installedAt := Some ts\<rparr>"

definition plugins_unparsable_date :: "Plugin list" where
  "plugins_unparsable_date =
     [installed_on ''p1'' ''2025-01-02T00:00:00.000Z'',
      installed_on ''p2'' ''2025-01-03T00:00:00.000Z'',
      installed_on ''p3'' ''2025-01-04T00:00:00.000Z'',
      installed_on ''p4'' ''2025-01-05T00:00:00.000Z'',
      installed_on ''p5'' ''last week'',
      installed_on ''p6'' ''2025-01-01T00:00:00.000Z'',
      installed_on ''p7'' ''2025-01-06T00:00:00.000Z'',
      installed_on ''p8'' ''2025-01-01T00:00:00.000Z'']"

definition runtime_v8 :: JsRuntime where
  "runtime_v8 = runtime_sample\<lparr>sort := v8_sort\<rparr>"

text \<open>A settings document written on one line, the value \<open>JSON.parse\<close> gives for it, and
  the text \<open>JSON.stringify(value, null, 2)\<close> with a newline gives for that value.\<close>

definition settings_compact_text :: string where
  \<open>settings_compact_text =
     ''{"permissions":{"allow":["Bash"]},"enabledPlugins":{"context7@claude-plugins-official":true}}''\<close>

definition settings_compact :: Settings where
  "settings_compact =
     \<lparr> keysBefore = [(''permissions'', JObject [(''allow'', JArray [JString ''Bash''])])],
       enabledPlugins = Some [(''context7@claude-plugins-official'', True)],
       keysAfter = [] \<rparr>"

definition settings_pretty_text :: string where
  \<open>settings_pretty_text =
     join [CHR 0x0A]
       [''{'',
        ''  "permissions": {'',
        ''    "allow": ['',
        ''      "Bash"'',
        ''    ]'',
        ''  },'',
        ''  "enabledPlugins": {'',
        ''    "context7@claude-plugins-official": true'',
        ''  }'',
        ''}'']
     @ [CHR 0x0A]\<close>

definition disk_compact_settings :: Disk where
  "disk_compact_settings =
     disk_official\<lparr>settingsFile := Content settings_compact,
                   settingsText := settings_compact_text\<rparr>"

section \<open>Properties of the aggregation engine\<close>

subsection \<open>The sort\<close>

lemma set_insort_cmp: "set (insort_cmp c x ys) = insert x (set ys)"
  by (induction ys) auto

lemma set_js_sort: "set (js_sort c xs) = set xs"
  by (induction xs) (simp_all add: js_sort_def set_insort_cmp)

lemma distinct_map_insort_cmp:
  "distinct (map f (insort_cmp c x ys)) = (f x \<notin> f ` set ys \<and> distinct (map f ys))"
  by (induction ys) (auto simp: set_insort_cmp)

lemma distinct_map_js_sort: "distinct (map f (js_sort c xs)) = distinct (map f xs)"
  by (induction xs) (simp_all add: js_sort_def distinct_map_insort_cmp set_insort_cmp set_js_sort[unfolded js_sort_def])

subsection \<open>The shape of an aggregation pass\<close>

lemma readJsonFile_Inr: "readJsonFile p f = Inr x \<Longrightarrow> x = file_opt f \<and> (f = Missing \<or> (\<exists>v. f = Content v))"
  by (cases f) (auto simp: file_opt_def)

lemma manifest_plugins_catalog:
  "manifest_plugins im cm en mkt (file_opt (catalogFile d mkt)) = map (mkPlugin im cm en mkt) (catalog d mkt)"
  by (auto simp: manifest_plugins_def catalog_def file_opt_def split: File.splits option.splits)

lemma scan_Inr:
  "scanMarketplaces d im cm en ms acc = Inr ps \<Longrightarrow>
     ps = acc @ concat (map (\<lambda>m. map (mkPlugin im cm en m) (catalog d m)) ms)"
proof (induction ms arbitrary: acc)
  case Nil
  then show ?case by simp
next
  case (Cons m ms)
  from Cons.prems obtain x where
    x: "readJsonFile (getMarketplaceJsonPath d m) (catalogFile d m) = Inr x"
    and rest: "scanMarketplaces d im cm en ms (acc @ manifest_plugins im cm en m x) = Inr ps"
    by (auto split: sum.splits)
  from x have "x = file_opt (catalogFile d m)" by (simp add: readJsonFile_Inr)
  with Cons.IH[OF rest] show ?case by (simp add: manifest_plugins_catalog)
qed

lemma scan_ok:
  "\<forall>m\<in>set ms. catalogFile d m = Missing \<or> (\<exists>v. catalogFile d m = Content v) \<Longrightarrow>
   scanMarketplaces d im cm en ms acc =
     Inr (acc @ concat (map (\<lambda>m. map (mkPlugin im cm en m) (catalog d m)) ms))"
proof (induction ms arbitrary: acc)
  case Nil
  then show ?case by simp
next
  case (Cons m ms)
  have "readJsonFile (getMarketplaceJsonPath d m) (catalogFile d m) = Inr (file_opt (catalogFile d m))"
    using Cons.prems by (auto simp: file_opt_def)
  then show ?case using Cons by (simp add: manifest_plugins_catalog)
qed

lemma scan_fails:
  "m \<in> set ms \<Longrightarrow> catalogFile d m = Invalid msg \<or> catalogFile d m = Unreadable msg \<Longrightarrow>
   scanMarketplaces d im cm en ms acc \<noteq> Inr ps"
proof (induction ms arbitrary: acc)
  case Nil
  then show ?case by simp
next
  case (Cons a ms)
  then show ?case by (cases "catalogFile d a") (auto split: sum.splits)
qed

lemma build_installedMap_absent:
  "\<forall>es'. (pid, es') \<in> set es \<longrightarrow> es' = [] \<Longrightarrow> build_installedMap es m pid = m pid"
  by (induction es m rule: build_installedMap.induct) (auto split: list.splits)

lemma loadAllPlugins_Inr:
  assumes "loadAllPlugins d = Inr ps"
  obtains en where "getEnabledPlugins d = Inr en"
    and "ps = js_sort (\<lambda>a b. installCount b - installCount a)
           (concat (map (\<lambda>m. map (mkPlugin (installedMap_of (file_opt (installedPluginsFile d)))
                (countsMap_of (file_opt (installCountsCacheFile d))) en m) (catalog d m))
                (listDirectories_marketplacesDir d)))"
  using assms
  by (auto simp: loadAllPlugins_def directoryExists_marketplacesDir_def listDirectories_marketplacesDir_def
       split: sum.splits if_splits option.splits dest!: readJsonFile_Inr scan_Inr)

lemmas sample_defs = entry_context7_def catalog_official_def settings_enabled_def disk_official_def
  plugin_context7_def

lemmas load_defs = loadAllPlugins_def getEnabledPlugins_def readSettings_def
  directoryExists_marketplacesDir_def listDirectories_marketplacesDir_def catalogFile_def
  manifest_plugins_def mkPlugin_def installedMap_of_def countsMap_of_def js_sort_def
  or_default_def or_str_def getMarketplaceJsonPath_def PATHS_marketplacesDir_def PLUGINS_DIR_def
  CLAUDE_DIR_def PATHS_settings_def PATHS_installedPlugins_def PATHS_installCountsCache_def

lemma mkPlugin_sel:
  "id' (mkPlugin im cm en m e) = MarketplacePluginEntry.name e @ ''@'' @ m"
  "name (mkPlugin im cm en m e) = MarketplacePluginEntry.name e"
  "marketplace (mkPlugin im cm en m e) = m"
  "isInstalled (mkPlugin im cm en m e) = (im (MarketplacePluginEntry.name e @ ''@'' @ m) \<noteq> None)"
  "isEnabled (mkPlugin im cm en m e) =
     (case en (MarketplacePluginEntry.name e @ ''@'' @ m) of None \<Rightarrow> False | Some b \<Rightarrow> b)"
  by (simp_all add: mkPlugin_def Let_def)

lemma loadAllPlugins_member:
  assumes "loadAllPlugins d = Inr ps" and "p \<in> set ps"
  obtains en m e where "getEnabledPlugins d = Inr en"
    and "m \<in> set (listDirectories_marketplacesDir d)" and "e \<in> set (catalog d m)"
    and "p = mkPlugin (installedMap_of (file_opt (installedPluginsFile d)))
               (countsMap_of (file_opt (installCountsCacheFile d))) en m e"
proof -
  from assms(1) obtain en where en: "getEnabledPlugins d = Inr en"
    and ps: "ps = js_sort (\<lambda>a b. installCount b - installCount a)
           (concat (map (\<lambda>m. map (mkPlugin (installedMap_of (file_opt (installedPluginsFile d)))
                (countsMap_of (file_opt (installCountsCacheFile d))) en m) (catalog d m))
                (listDirectories_marketplacesDir d)))"
    by (rule loadAllPlugins_Inr)
  from assms(2) ps obtain m e where "m \<in> set (listDirectories_marketplacesDir d)"
    "e \<in> set (catalog d m)"
    "p = mkPlugin (installedMap_of (file_opt (installedPluginsFile d)))
               (countsMap_of (file_opt (installCountsCacheFile d))) en m e"
    by (auto simp: set_js_sort)
  with en that show thesis by blast
qed

lemma installedMap_of_absent:
  "\<forall>es'. (pid, es') \<in> set (registry d) \<longrightarrow> es' = [] \<Longrightarrow>
   installedMap_of (file_opt (installedPluginsFile d)) pid = None"
  by (auto simp: installedMap_of_def file_opt_def registry_def build_installedMap_absent
      split: File.splits option.splits)

subsection \<open>C1: plugins of a catalog without an entry in the registry\<close>

text \<open>
  Claim C1, as the code has it. Every record an aggregation pass returns for a plugin id
  that is not a key of the installed-plugin registry has \<open>isInstalled = False\<close>; its
  \<open>isEnabled\<close> is the value the enabled-state map of the settings document holds for
  the id (\<open>False\<close> when the map has no such key), whether or not the plugin is installed.
\<close>

theorem not_in_registry_not_installed:
  assumes "loadAllPlugins d = Inr ps" and "p \<in> set ps"
    and "getEnabledPlugins d = Inr en"
    and "id' p \<notin> fst ` set (registry d)"
  shows "\<not> isInstalled p \<and> isEnabled p = (case en (id' p) of None \<Rightarrow> False | Some b \<Rightarrow> b)"
proof -
  from assms(1,2) obtain en' m e where en': "getEnabledPlugins d = Inr en'"
    and p: "p = mkPlugin (installedMap_of (file_opt (installedPluginsFile d)))
               (countsMap_of (file_opt (installCountsCacheFile d))) en' m e"
    by (rule loadAllPlugins_member)
  from en' assms(3) have "en' = en" by simp
  moreover from assms(4) have "\<forall>es'. (id' p, es') \<in> set (registry d) \<longrightarrow> es' = []"
    by force
  then have "installedMap_of (file_opt (installedPluginsFile d)) (id' p) = None"
    by (rule installedMap_of_absent)
  ultimately show ?thesis using p by (simp add: mkPlugin_sel)
qed

text \<open>The theorem at the catalog of the specification's scenario.\<close>

theorem not_in_registry_not_installed_witness:
  "loadAllPlugins disk_official = Inr [plugin_context7]
   \<and> plugin_context7 \<in> set [plugin_context7]
   \<and> getEnabledPlugins disk_official = Inr [''context7@claude-plugins-official'' \<mapsto> True]
   \<and> id' plugin_context7 \<notin> fst ` set (registry disk_official)
   \<and> \<not> isInstalled plugin_context7
   \<and> isEnabled plugin_context7 =
       (case [''context7@claude-plugins-official'' \<mapsto> True] (id' plugin_context7) of
          None \<Rightarrow> False | Some b \<Rightarrow> b)"
proof -
  have h1: "loadAllPlugins disk_official = Inr [plugin_context7]"
    by (simp add: sample_defs load_defs)
  have h2: "plugin_context7 \<in> set [plugin_context7]" by simp
  have h3: "getEnabledPlugins disk_official = Inr [''context7@claude-plugins-official'' \<mapsto> True]"
    by (simp add: sample_defs load_defs)
  have h4: "id' plugin_context7 \<notin> fst ` set (registry disk_official)"
    by (simp add: sample_defs registry_def)
  from not_in_registry_not_installed [OF h1 h2 h3 h4] h1 h2 h3 h4 show ?thesis by blast
qed

text \<open>
  C1 as stated fails: with \<open>context7@claude-plugins-official\<close> in a catalog, an empty
  registry and the settings mapping the id to \<open>true\<close>, the record is not installed and
  enabled.
\<close>

theorem enabled_without_install_counterexample:
  "map_sum id (map id') (loadAllPlugins disk_official) = Inr [''context7@claude-plugins-official'']
   \<and> registry disk_official = []
   \<and> map_sum id (map isInstalled) (loadAllPlugins disk_official) = Inr [False]
   \<and> map_sum id (map isEnabled) (loadAllPlugins disk_official) = Inr [True]"
  by (simp add: sample_defs load_defs registry_def)

lemma readJsonFile_readable:
  "readable f \<Longrightarrow> readJsonFile p f = Inr (file_opt f)"
  by (cases f) (simp_all add: readable_def file_opt_def)

lemma catalog_Missing: "catalogFile d m = Missing \<Longrightarrow> catalog d m = []"
  by (simp add: catalog_def)

subsection \<open>C2: the error policy of an aggregation pass\<close>

text \<open>
  Claim C2, as the code has it. A malformed installed-plugin registry, install-count
  cache or settings document makes the pass throw the invalid-JSON error that names the
  document (the first one read that is malformed). A malformed catalog of a listed
  marketplace makes the pass throw as well: the read in the loop is not guarded. Only a
  missing catalog is tolerated: when the three documents are readable and every listed
  catalog is missing or parsable, a missing catalog contributes no record and the pass
  returns the sorted records of all the catalogs.
\<close>

theorem loadAllPlugins_error_policy:
  "(installedPluginsFile d = Invalid msg \<longrightarrow>
      loadAllPlugins d = Inl (InvalidJson (PATHS_installedPlugins d) msg))
   \<and> (readable (installedPluginsFile d) \<and> installCountsCacheFile d = Invalid msg \<longrightarrow>
      loadAllPlugins d = Inl (InvalidJson (PATHS_installCountsCache d) msg))
   \<and> (readable (installedPluginsFile d) \<and> readable (installCountsCacheFile d)
        \<and> settingsFile d = Invalid msg \<longrightarrow>
      loadAllPlugins d = Inl (InvalidJson (PATHS_settings d) msg))
   \<and> (m \<in> set (listDirectories_marketplacesDir d) \<and> catalogFile d m = Invalid msg \<longrightarrow>
      isl (loadAllPlugins d))
   \<and> (readable (installedPluginsFile d) \<and> readable (installCountsCacheFile d)
        \<and> settingsFile d = Content s
        \<and> (\<forall>k \<in> set (listDirectories_marketplacesDir d).
              catalogFile d k = Missing \<or> (\<exists>v. catalogFile d k = Content v)) \<longrightarrow>
      (\<forall>k. catalogFile d k = Missing \<longrightarrow> catalog d k = [])
      \<and> loadAllPlugins d =
          Inr (js_sort (\<lambda>a b. installCount b - installCount a)
            (concat (map (\<lambda>k. map (mkPlugin (installedMap_of (file_opt (installedPluginsFile d)))
                 (countsMap_of (file_opt (installCountsCacheFile d)))
                 (case enabledPlugins s of None \<Rightarrow> Map.empty | Some en \<Rightarrow> map_of en) k) (catalog d k))
               (listDirectories_marketplacesDir d)))))"
proof (intro conjI impI)
  assume "installedPluginsFile d = Invalid msg"
  then show "loadAllPlugins d = Inl (InvalidJson (PATHS_installedPlugins d) msg)"
    by (simp add: loadAllPlugins_def)
next
  assume "readable (installedPluginsFile d) \<and> installCountsCacheFile d = Invalid msg"
  then show "loadAllPlugins d = Inl (InvalidJson (PATHS_installCountsCache d) msg)"
    by (simp add: loadAllPlugins_def readJsonFile_readable)
next
  assume "readable (installedPluginsFile d) \<and> readable (installCountsCacheFile d)
        \<and> settingsFile d = Invalid msg"
  then show "loadAllPlugins d = Inl (InvalidJson (PATHS_settings d) msg)"
    by (simp add: loadAllPlugins_def readJsonFile_readable getEnabledPlugins_def readSettings_def)
next
  assume a: "m \<in> set (listDirectories_marketplacesDir d) \<and> catalogFile d m = Invalid msg"
  then have "marketplacesDir d \<noteq> None"
    by (cases "marketplacesDir d") (simp_all add: listDirectories_marketplacesDir_def)
  moreover from a
  have "\<And>im cm en ps. scanMarketplaces d im cm en (listDirectories_marketplacesDir d) [] \<noteq> Inr ps"
    using scan_fails [of m "listDirectories_marketplacesDir d" d msg] by simp
  ultimately show "isl (loadAllPlugins d)"
    by (simp add: loadAllPlugins_def directoryExists_marketplacesDir_def split: sum.splits)
next
  assume a: "readable (installedPluginsFile d) \<and> readable (installCountsCacheFile d)
        \<and> settingsFile d = Content s
        \<and> (\<forall>k \<in> set (listDirectories_marketplacesDir d).
              catalogFile d k = Missing \<or> (\<exists>v. catalogFile d k = Content v))"
  show "\<forall>k. catalogFile d k = Missing \<longrightarrow> catalog d k = []"
    by (simp add: catalog_Missing)
  from a have en: "getEnabledPlugins d =
      Inr (case enabledPlugins s of None \<Rightarrow> Map.empty | Some en \<Rightarrow> map_of en)"
    by (simp add: getEnabledPlugins_def readSettings_def)
  from a have scan: "\<And>im cm en. scanMarketplaces d im cm en (listDirectories_marketplacesDir d) [] =
     Inr ([] @ concat (map (\<lambda>m. map (mkPlugin im cm en m) (catalog d m)) (listDirectories_marketplacesDir d)))"
    by (intro scan_ok) simp
  have nodir: "\<not> directoryExists_marketplacesDir d \<Longrightarrow> listDirectories_marketplacesDir d = []"
    by (simp add: directoryExists_marketplacesDir_def listDirectories_marketplacesDir_def)
  from a show "loadAllPlugins d =
          Inr (js_sort (\<lambda>a b. installCount b - installCount a)
            (concat (map (\<lambda>k. map (mkPlugin (installedMap_of (file_opt (installedPluginsFile d)))
                 (countsMap_of (file_opt (installCountsCacheFile d)))
                 (case enabledPlugins s of None \<Rightarrow> Map.empty | Some en \<Rightarrow> map_of en) k) (catalog d k))
               (listDirectories_marketplacesDir d))))"
    by (simp add: loadAllPlugins_def readJsonFile_readable en scan nodir)
qed

text \<open>The theorem on a disk with a malformed catalog and on a disk with a missing one.\<close>

theorem loadAllPlugins_error_policy_witness:
  "isl (loadAllPlugins disk_broken_catalog)
   \<and> catalog disk_missing_catalog ''empty'' = []
   \<and> loadAllPlugins disk_missing_catalog = Inr [plugin_context7]"
proof -
  have b: "''broken'' \<in> set (listDirectories_marketplacesDir disk_broken_catalog)
      \<and> catalogFile disk_broken_catalog ''broken'' = Invalid ''Unexpected end of JSON input''"
    by (simp add: sample_defs disk_broken_catalog_def disk_missing_catalog_def listDirectories_marketplacesDir_def catalogFile_def)
  have m: "readable (installedPluginsFile disk_missing_catalog)
      \<and> readable (installCountsCacheFile disk_missing_catalog)
      \<and> settingsFile disk_missing_catalog = Content settings_enabled
      \<and> (\<forall>k \<in> set (listDirectories_marketplacesDir disk_missing_catalog).
            catalogFile disk_missing_catalog k = Missing
            \<or> (\<exists>v. catalogFile disk_missing_catalog k = Content v))"
    by (simp add: sample_defs disk_broken_catalog_def disk_missing_catalog_def listDirectories_marketplacesDir_def catalogFile_def readable_def)
  have e: "catalogFile disk_missing_catalog ''empty'' = Missing"
    by (simp add: sample_defs disk_broken_catalog_def disk_missing_catalog_def catalogFile_def)
  from loadAllPlugins_error_policy [of disk_broken_catalog "''Unexpected end of JSON input''" "''broken''"] b
  have 1: "isl (loadAllPlugins disk_broken_catalog)" by blast
  from loadAllPlugins_error_policy [of disk_missing_catalog _ _ settings_enabled] m
  have "(\<forall>k. catalogFile disk_missing_catalog k = Missing \<longrightarrow> catalog disk_missing_catalog k = [])
     \<and> loadAllPlugins disk_missing_catalog =
          Inr (js_sort (\<lambda>a b. installCount b - installCount a)
            (concat (map (\<lambda>k. map (mkPlugin (installedMap_of (file_opt (installedPluginsFile disk_missing_catalog)))
                 (countsMap_of (file_opt (installCountsCacheFile disk_missing_catalog)))
                 (case enabledPlugins settings_enabled of None \<Rightarrow> Map.empty | Some en \<Rightarrow> map_of en) k) (catalog disk_missing_catalog k))
               (listDirectories_marketplacesDir disk_missing_catalog))))" by blast
  with e have 2: "catalog disk_missing_catalog ''empty'' = []" by blast
  have 3: "loadAllPlugins disk_missing_catalog = Inr [plugin_context7]"
    by (simp add: sample_defs disk_broken_catalog_def disk_missing_catalog_def load_defs)
  from 1 2 3 show ?thesis by blast
qed

text \<open>
  C2 as stated fails: with the malformed catalog of marketplace \<open>broken\<close> next to a
  sound one, the pass returns no record at all but the error of the malformed catalog.
\<close>

theorem malformed_catalog_aborts_counterexample:
  "loadAllPlugins disk_broken_catalog =
     Inl (InvalidJson ''/home/u/.claude/plugins/marketplaces/broken/.claude-plugin/marketplace.json''
            ''Unexpected end of JSON input'')"
  by (simp add: sample_defs disk_broken_catalog_def load_defs)

lemma at_split:
  "CHR ''@'' \<notin> set a \<Longrightarrow> CHR ''@'' \<notin> set b \<Longrightarrow> a @ ''@'' @ m = b @ ''@'' @ k \<Longrightarrow> a = b \<and> m = k"
proof (induction a arbitrary: b)
  case Nil
  then show ?case by (cases b) auto
next
  case (Cons x a)
  then show ?case by (cases b) auto
qed

lemma distinct_ids_one:
  assumes "distinct (map MarketplacePluginEntry.name es)"
  shows "distinct (map (\<lambda>e. MarketplacePluginEntry.name e @ ''@'' @ m) es)"
proof -
  have "map (\<lambda>e. MarketplacePluginEntry.name e @ ''@'' @ m) es
        = map (\<lambda>n. n @ ''@'' @ m) (map MarketplacePluginEntry.name es)"
    by simp
  moreover have "inj (\<lambda>n::string. n @ ''@'' @ m)" by (rule injI) simp
  ultimately show ?thesis using assms
    by (simp only: distinct_map) (auto intro: inj_on_subset)
qed

lemma distinct_ids_concat:
  assumes "distinct ms"
    and "\<forall>m \<in> set ms. distinct (map MarketplacePluginEntry.name (cat m))
           \<and> (\<forall>e \<in> set (cat m). CHR ''@'' \<notin> set (MarketplacePluginEntry.name e))"
  shows "distinct (concat (map (\<lambda>m. map (\<lambda>e. MarketplacePluginEntry.name e @ ''@'' @ m) (cat m)) ms))"
  using assms
proof (induction ms)
  case Nil
  then show ?case by simp
next
  case (Cons m ms)
  have one: "distinct (map (\<lambda>e. MarketplacePluginEntry.name e @ ''@'' @ m) (cat m))"
    using Cons.prems by (intro distinct_ids_one) simp
  have rest: "distinct (concat (map (\<lambda>m. map (\<lambda>e. MarketplacePluginEntry.name e @ ''@'' @ m) (cat m)) ms))"
    using Cons by simp
  have disj: "False"
    if "e \<in> set (cat m)" "k \<in> set ms" "e' \<in> set (cat k)"
      "MarketplacePluginEntry.name e @ ''@'' @ m = MarketplacePluginEntry.name e' @ ''@'' @ k"
    for e k e'
  proof -
    from that Cons.prems(2) have "CHR ''@'' \<notin> set (MarketplacePluginEntry.name e)"
      "CHR ''@'' \<notin> set (MarketplacePluginEntry.name e')" by auto
    with that(4) have "m = k" by (blast dest: at_split)
    with that(2) Cons.prems(1) show False by simp
  qed
  from one rest disj show ?case by (simp del: append_assoc) blast
qed

subsection \<open>C5: uniqueness of the composite ids\<close>

text \<open>
  Claim C5, as the code has it. The ids of the records of one aggregation pass are
  pairwise different provided the marketplace directories have different names, no
  catalog lists a plugin name twice, and no plugin name contains the separator \<open>@\<close>.
  The pass itself removes no duplicate.
\<close>

theorem ids_distinct:
  assumes "loadAllPlugins d = Inr ps"
    and "distinct (listDirectories_marketplacesDir d)"
    and "\<forall>m \<in> set (listDirectories_marketplacesDir d).
           distinct (map MarketplacePluginEntry.name (catalog d m))
           \<and> (\<forall>e \<in> set (catalog d m). CHR ''@'' \<notin> set (MarketplacePluginEntry.name e))"
  shows "distinct (map id' ps)"
proof -
  from assms(1) obtain en where
    ps: "ps = js_sort (\<lambda>a b. installCount b - installCount a)
           (concat (map (\<lambda>m. map (mkPlugin (installedMap_of (file_opt (installedPluginsFile d)))
                (countsMap_of (file_opt (installCountsCacheFile d))) en m) (catalog d m))
                (listDirectories_marketplacesDir d)))"
    by (rule loadAllPlugins_Inr)
  have "distinct (concat (map (\<lambda>m. map (\<lambda>e. MarketplacePluginEntry.name e @ ''@'' @ m) (catalog d m))
          (listDirectories_marketplacesDir d)))"
    using assms(2,3) by (rule distinct_ids_concat)
  then show ?thesis
    by (simp add: ps distinct_map_js_sort map_concat comp_def mkPlugin_sel)
qed

text \<open>The theorem on a disk with two marketplaces, the first with two plugins and the
  second with a plugin of the same name as one of the first: three records, three ids.\<close>

theorem ids_distinct_witness:
  "loadAllPlugins disk_two_marketplaces =
     Inr [plugin_context7_installed, plugin_playwright, plugin_context7_community]
   \<and> listDirectories_marketplacesDir disk_two_marketplaces =
       [''claude-plugins-official'', ''community'']
   \<and> map MarketplacePluginEntry.name (catalog disk_two_marketplaces ''claude-plugins-official'')
       = [''context7'', ''playwright'']
   \<and> map MarketplacePluginEntry.name (catalog disk_two_marketplaces ''community'')
       = [''context7'']
   \<and> map id' [plugin_context7_installed, plugin_playwright, plugin_context7_community] =
       [''context7@claude-plugins-official'', ''playwright@claude-plugins-official'',
        ''context7@community'']
   \<and> distinct (map id' [plugin_context7_installed, plugin_playwright, plugin_context7_community])"
proof -
  have h1: "loadAllPlugins disk_two_marketplaces =
     Inr [plugin_context7_installed, plugin_playwright, plugin_context7_community]"
    by code_simp
  have l: "listDirectories_marketplacesDir disk_two_marketplaces =
       [''claude-plugins-official'', ''community'']"
    by code_simp
  have c1: "map MarketplacePluginEntry.name (catalog disk_two_marketplaces ''claude-plugins-official'')
       = [''context7'', ''playwright'']"
    by code_simp
  have c2: "map MarketplacePluginEntry.name (catalog disk_two_marketplaces ''community'')
       = [''context7'']"
    by code_simp
  have i: "map id' [plugin_context7_installed, plugin_playwright, plugin_context7_community] =
       [''context7@claude-plugins-official'', ''playwright@claude-plugins-official'',
        ''context7@community'']"
    by code_simp
  have h2: "distinct (listDirectories_marketplacesDir disk_two_marketplaces)"
    by (simp add: l)
  have n: "\<And>m. m \<in> set (listDirectories_marketplacesDir disk_two_marketplaces) \<Longrightarrow>
      set (map MarketplacePluginEntry.name (catalog disk_two_marketplaces m))
        \<subseteq> {''context7'', ''playwright''}"
    using c1 c2 by (auto simp: l)
  have h3: "\<forall>m \<in> set (listDirectories_marketplacesDir disk_two_marketplaces).
           distinct (map MarketplacePluginEntry.name (catalog disk_two_marketplaces m))
           \<and> (\<forall>e \<in> set (catalog disk_two_marketplaces m).
                 CHR ''@'' \<notin> set (MarketplacePluginEntry.name e))"
  proof (intro ballI conjI)
    fix m assume m: "m \<in> set (listDirectories_marketplacesDir disk_two_marketplaces)"
    then show "distinct (map MarketplacePluginEntry.name (catalog disk_two_marketplaces m))"
      using c1 c2 by (auto simp: l)
    fix e assume "e \<in> set (catalog disk_two_marketplaces m)"
    then have "MarketplacePluginEntry.name e \<in> {''context7'', ''playwright''}"
      using n [OF m] by auto
    then show "CHR ''@'' \<notin> set (MarketplacePluginEntry.name e)" by auto
  qed
  from ids_distinct [OF h1 h2 h3] h1 l c1 c2 i show ?thesis by simp
qed

text \<open>
  C5 as stated fails: a catalog that lists \<open>context7\<close> twice yields two records with
  the id \<open>context7@claude-plugins-official\<close>.
\<close>

theorem duplicate_catalog_entry_counterexample:
  "map_sum id (map id') (loadAllPlugins disk_duplicate_entry) =
     Inr [''context7@claude-plugins-official'', ''context7@claude-plugins-official'']"
  by (simp add: sample_defs disk_duplicate_entry_def load_defs)

subsection \<open>C10: a registry key with no installation entry\<close>

text \<open>
  Claim C10. When the installed-plugin registry maps a plugin id to the empty sequence
  of installation entries, the record of that id is not installed, carries no
  \<open>installedAt\<close>, \<open>lastUpdated\<close> or \<open>gitCommitSha\<close>, and has the version of its catalog
  entry, or \<open>unknown\<close> when the entry has none. The registry is a JSON object, so each
  of its keys occurs once.
\<close>

theorem empty_installation_not_installed:
  assumes "loadAllPlugins d = Inr ps" and "p \<in> set ps"
    and "(id' p, []) \<in> set (registry d)"
    and "distinct (map fst (registry d))"
  shows "\<not> isInstalled p \<and> installedAt p = None \<and> lastUpdated p = None
         \<and> gitCommitSha p = None
         \<and> (\<exists>e \<in> set (catalog d (marketplace p)).
               MarketplacePluginEntry.name e = name p
               \<and> version p = or_default (MarketplacePluginEntry.version e) ''unknown'')"
proof -
  from assms(1,2) obtain en m e where e: "e \<in> set (catalog d m)"
    and p: "p = mkPlugin (installedMap_of (file_opt (installedPluginsFile d)))
               (countsMap_of (file_opt (installCountsCacheFile d))) en m e"
    by (rule loadAllPlugins_member)
  from assms(3,4) have "\<forall>es'. (id' p, es') \<in> set (registry d) \<longrightarrow> es' = []"
    by (auto dest: eq_key_imp_eq_value)
  then have none: "installedMap_of (file_opt (installedPluginsFile d)) (id' p) = None"
    by (rule installedMap_of_absent)
  then have none': "installedMap_of (file_opt (installedPluginsFile d))
      (MarketplacePluginEntry.name e @ ''@'' @ m) = None"
    by (simp add: p mkPlugin_sel)
  have "\<not> isInstalled p \<and> installedAt p = None \<and> lastUpdated p = None \<and> gitCommitSha p = None
      \<and> version p = or_default (MarketplacePluginEntry.version e) ''unknown''"
    using none' by (simp add: p mkPlugin_def Let_def or_str_def)
  moreover have "marketplace p = m" "MarketplacePluginEntry.name e = name p"
    by (simp_all add: p mkPlugin_sel)
  ultimately show ?thesis using e by blast
qed

text \<open>The theorem on a registry that maps \<open>context7@claude-plugins-official\<close> to \<open>[]\<close>.\<close>

theorem empty_installation_not_installed_witness:
  "loadAllPlugins disk_empty_installation = Inr [plugin_context7]
   \<and> (id' plugin_context7, []) \<in> set (registry disk_empty_installation)
   \<and> distinct (map fst (registry disk_empty_installation))
   \<and> \<not> isInstalled plugin_context7 \<and> installedAt plugin_context7 = None
   \<and> lastUpdated plugin_context7 = None \<and> gitCommitSha plugin_context7 = None
   \<and> version plugin_context7 = ''1.2.0''"
proof -
  have h1: "loadAllPlugins disk_empty_installation = Inr [plugin_context7]"
    by (simp add: sample_defs disk_empty_installation_def load_defs)
  have h2: "plugin_context7 \<in> set [plugin_context7]" by simp
  have h3: "(id' plugin_context7, []) \<in> set (registry disk_empty_installation)"
    by (simp add: sample_defs disk_empty_installation_def registry_def)
  have h4: "distinct (map fst (registry disk_empty_installation))"
    by (simp add: sample_defs disk_empty_installation_def registry_def)
  have "version plugin_context7 = ''1.2.0''" by (simp add: plugin_context7_def)
  with empty_installation_not_installed [OF h1 h2 h3 h4] h1 h3 h4 show ?thesis by blast
qed

section \<open>Properties of the interaction state machine\<close>











subsection \<open>C6: the gate on input while an operation runs\<close>

text \<open>The gate of the handler: while the operation is not \<open>idle\<close>, a key that reaches
  \<open>useInput\<close> changes nothing.\<close>

lemma useInput_gate: "operation (state w) \<noteq> Idle \<Longrightarrow> useInput rt input key w = w"
  by (simp add: useInput_def Let_def)

text \<open>
  Claim C6 says that while an operation is in flight no key has any effect, the quit
  keys included. Ctrl+C, which the handler itself counts as a quit key, never reaches
  the gate of the handler: in the session that is uninstalling \<open>playwright\<close>, with the
  uninstall command launched and not yet settled, Ctrl+C ends the session.
\<close>

theorem ctrl_c_ends_session_during_operation:
  "operation (state world_uninstalling) = Uninstalling
   \<and> operationPluginId (state world_uninstalling) = Some ''playwright@claude-plugins-official''
   \<and> spawned world_uninstalling = [(Uninstall, ''playwright@claude-plugins-official'')]
   \<and> exited world_uninstalling = False
   \<and> exited (step runtime_sample world_uninstalling (KeyPress ''c'' (no_key\<lparr>ctrl := True\<rparr>)))
       = True"
  by code_simp

lemma navigation_q: "navigation_key rt ''q'' no_key w = w\<lparr>exited := True\<rparr>"
  by (simp add: navigation_key_def Let_def no_key_def)

lemma navigation_ctrl_c:
  "navigation_key rt ''c'' (no_key\<lparr>ctrl := True\<rparr>) w = w\<lparr>exited := True\<rparr>"
  by (simp add: navigation_key_def Let_def no_key_def)

lemma confirm_q: "confirm_key rt pid ''q'' no_key w = w"
  by (simp add: confirm_key_def no_key_def)

lemma confirm_ctrl_c: "confirm_key rt pid ''c'' (no_key\<lparr>ctrl := True\<rparr>) w = w"
  by (simp add: confirm_key_def no_key_def)

subsection \<open>C4: the quit key\<close>

text \<open>
  Claim C4, as the code has it. With no operation in flight, the quit key (\<open>q\<close>, or
  \<open>c\<close> with Ctrl when it reaches the handler) ends the session when no uninstall
  confirmation is pending and search mode is off. While a confirmation is pending the
  handler accepts the answers to the dialog only, and the quit key changes nothing: the
  session goes on.
\<close>

theorem quit_key_honoured:
  assumes "operation (state w) = Idle"
    and "(input = ''q'' \<and> key = no_key) \<or> (input = ''c'' \<and> key = no_key\<lparr>ctrl := True\<rparr>)"
  shows "(\<not> confirming (state w) \<and> \<not> isSearchMode w
          \<longrightarrow> useInput rt input key w = w\<lparr>exited := True\<rparr>)
       \<and> (confirming (state w) \<longrightarrow> useInput rt input key w = w)"
proof (intro conjI impI)
  assume a: "\<not> confirming (state w) \<and> \<not> isSearchMode w"
  then have c: "confirming (state w) = False"
    and m: "isSearchMode w = False" by simp_all
  have "useInput rt input key w = navigation_key rt input key w"
    by (simp only: useInput_def Let_def assms(1) c m) simp
  with assms(2) show "useInput rt input key w = w\<lparr>exited := True\<rparr>"
    by (elim disjE conjE) (simp_all only: navigation_q navigation_ctrl_c)
next
  assume "confirming (state w)"
  then have c: "confirming (state w) = True"
    by simp
  have "useInput rt input key w =
      confirm_key rt (the (operationPluginId (state w))) input key w"
    by (simp only: useInput_def Let_def assms(1) c) simp
  with assms(2) show "useInput rt input key w = w"
    by (elim disjE conjE) (simp_all only: confirm_q confirm_ctrl_c)
qed

text \<open>The theorem on the Installed tab, before and after the uninstall key.\<close>

theorem quit_key_honoured_witness:
  "operation (state world_installed_tab) = Idle
   \<and> exited (step runtime_sample world_installed_tab (KeyPress ''q'' no_key))
   \<and> operation (state world_confirming) = Idle
   \<and> step runtime_sample world_confirming (KeyPress ''q'' no_key) = world_confirming"
proof -
  have i1: "operation (state world_installed_tab) = Idle" by code_simp
  have n1: "\<not> confirming (state world_installed_tab)
            \<and> \<not> isSearchMode world_installed_tab" by code_simp
  have i2: "operation (state world_confirming) = Idle" by code_simp
  have c2: "confirming (state world_confirming)" by code_simp
  have q: "(''q'' = ''q'' \<and> no_key = no_key) \<or> (''q'' = ''c'' \<and> no_key = no_key\<lparr>ctrl := True\<rparr>)"
    by simp
  from quit_key_honoured [OF i1 q, of runtime_sample] n1
  have "useInput runtime_sample ''q'' no_key world_installed_tab
        = world_installed_tab\<lparr>exited := True\<rparr>" by blast
  then have 1: "exited (step runtime_sample world_installed_tab (KeyPress ''q'' no_key))"
    by simp
  from quit_key_honoured [OF i2 q, of runtime_sample] c2
  have 2: "step runtime_sample world_confirming (KeyPress ''q'' no_key) = world_confirming"
    by simp
  from i1 1 i2 2 show ?thesis by blast
qed

text \<open>
  C4 as stated fails: in the session that waits for the confirmation of uninstalling
  \<open>playwright\<close>, with no operation in flight, the key \<open>q\<close> does not end the session.
\<close>

theorem quit_ignored_in_confirmation_counterexample:
  "operation (state world_confirming) = Idle
   \<and> confirmUninstall (state world_confirming)
   \<and> operationPluginId (state world_confirming) = Some ''playwright@claude-plugins-official''
   \<and> exited (step runtime_sample world_confirming (KeyPress ''q'' no_key)) = False"
  by code_simp

subsection \<open>C3: the selection after the plugin list shrinks\<close>

text \<open>
  Claim C3 says that \<open>selectedIndex\<close> stays within \<open>[0, max(0, itemCount - 1)]\<close> of the
  active tab in every reachable state. The session below is reachable: mount with two
  installed plugins, go to the Installed tab, move down to the second plugin, press the
  uninstall key, confirm, and let the command succeed. \<open>SET_PLUGINS\<close> then replaces the
  plugin list and leaves \<open>selectedIndex\<close> alone: the tab has one item and the selection
  is at index 1.
\<close>

theorem selection_out_of_range_after_uninstall:
  "operation (state world_after_uninstall) = Idle
   \<and> activeTab (state world_after_uninstall) = Installed
   \<and> selectedIndex (state world_after_uninstall) = 1
   \<and> length (getItemsForTab runtime_sample (state world_after_uninstall)) = 1
   \<and> \<not> selectedIndex (state world_after_uninstall)
         \<le> max 0 (int (length (getItemsForTab runtime_sample (state world_after_uninstall))) - 1)"
  by code_simp







subsection \<open>C7: uninstall asks first\<close>



section \<open>Properties of the query layer and of the settings writer\<close>

lemma filter_insort_cmp:
  "(P x \<Longrightarrow> \<forall>y \<in> set ys. P y \<longrightarrow> c x y \<le> 0) \<Longrightarrow>
   filter P (insort_cmp c x ys) = (if P x then x # filter P ys else filter P ys)"
  by (induction ys) auto

lemma filter_js_sort:
  assumes "\<forall>a b. P a \<and> P b \<longrightarrow> c a b \<le> 0"
  shows "filter P (js_sort c xs) = filter P xs"
proof (induction xs)
  case Nil
  then show ?case by (simp add: js_sort_def)
next
  case (Cons x xs)
  have "filter P (insort_cmp c x (js_sort c xs))
        = (if P x then x # filter P (js_sort c xs) else filter P (js_sort c xs))"
    using assms by (intro filter_insort_cmp) simp
  with Cons show ?case by (simp add: js_sort_def)
qed

lemma length_insort_cmp: "length (insort_cmp c x ys) = Suc (length ys)"
  by (induction ys) auto

lemma length_js_sort: "length (js_sort c xs) = length xs"
  by (induction xs) (simp_all add: js_sort_def length_insort_cmp)

subsection \<open>The comparator of \<open>sortPlugins\<close> is consistent when the timestamps parse\<close>

lemma consistent_key: "consistent_comparator (\<lambda>a b. f a - (f b :: int)) S"
  by (simp add: consistent_comparator_def)

lemma consistent_comparatorD:
  assumes "consistent_comparator c S"
  shows "\<And>a. a \<in> S \<Longrightarrow> c a a = 0"
    and "\<And>a b. a \<in> S \<Longrightarrow> b \<in> S \<Longrightarrow> c a b = 0 \<Longrightarrow> c b a = 0"
    and "\<And>a b d. a \<in> S \<Longrightarrow> b \<in> S \<Longrightarrow> d \<in> S \<Longrightarrow> c a b = 0 \<Longrightarrow> c b d = 0 \<Longrightarrow> c a d = 0"
    and "\<And>a b d. a \<in> S \<Longrightarrow> b \<in> S \<Longrightarrow> d \<in> S \<Longrightarrow> c a b < 0 \<Longrightarrow> c b d < 0 \<Longrightarrow> c a d < 0"
    and "\<And>a b d. a \<in> S \<Longrightarrow> b \<in> S \<Longrightarrow> d \<in> S \<Longrightarrow> c a b > 0 \<Longrightarrow> c b d > 0 \<Longrightarrow> c a d > 0"
  using assms unfolding consistent_comparator_def by blast+

lemma consistent_comparatorI:
  assumes "\<And>a. a \<in> S \<Longrightarrow> c a a = 0"
    and "\<And>a b. a \<in> S \<Longrightarrow> b \<in> S \<Longrightarrow> c a b = 0 \<Longrightarrow> c b a = 0"
    and "\<And>a b d. a \<in> S \<Longrightarrow> b \<in> S \<Longrightarrow> d \<in> S \<Longrightarrow> c a b = 0 \<Longrightarrow> c b d = 0 \<Longrightarrow> c a d = 0"
    and "\<And>a b d. a \<in> S \<Longrightarrow> b \<in> S \<Longrightarrow> d \<in> S \<Longrightarrow> c a b < 0 \<Longrightarrow> c b d < 0 \<Longrightarrow> c a d < 0"
    and "\<And>a b d. a \<in> S \<Longrightarrow> b \<in> S \<Longrightarrow> d \<in> S \<Longrightarrow> c a b > 0 \<Longrightarrow> c b d > 0 \<Longrightarrow> c a d > 0"
  shows "consistent_comparator c S"
  unfolding consistent_comparator_def using assms by blast

lemma consistent_uminus:
  assumes "consistent_comparator c S"
  shows "consistent_comparator (\<lambda>a b. - c a b) S"
proof (rule consistent_comparatorI)
  note d = consistent_comparatorD [OF assms]
  show "\<And>a. a \<in> S \<Longrightarrow> - c a a = 0"
    by (metis d(1) neg_equal_0_iff_equal)
  show "\<And>a b. a \<in> S \<Longrightarrow> b \<in> S \<Longrightarrow> - c a b = 0 \<Longrightarrow> - c b a = 0"
    by (metis d(2) neg_equal_0_iff_equal)
  show "\<And>a b e. a \<in> S \<Longrightarrow> b \<in> S \<Longrightarrow> e \<in> S \<Longrightarrow> - c a b = 0 \<Longrightarrow> - c b e = 0 \<Longrightarrow> - c a e = 0"
    by (metis d(3) neg_equal_0_iff_equal)
  show "\<And>a b e. a \<in> S \<Longrightarrow> b \<in> S \<Longrightarrow> e \<in> S \<Longrightarrow> - c a b < 0 \<Longrightarrow> - c b e < 0 \<Longrightarrow> - c a e < 0"
    by (metis d(5) neg_less_0_iff_less)
  show "\<And>a b e. a \<in> S \<Longrightarrow> b \<in> S \<Longrightarrow> e \<in> S \<Longrightarrow> - c a b > 0 \<Longrightarrow> - c b e > 0 \<Longrightarrow> - c a e > 0"
    by (metis d(4) neg_0_less_iff_less)
qed

lemma consistent_cong:
  assumes eq: "\<And>a b. a \<in> S \<Longrightarrow> b \<in> S \<Longrightarrow> c a b = c' a b"
    and "consistent_comparator c' S"
  shows "consistent_comparator c S"
proof (rule consistent_comparatorI)
  note d = consistent_comparatorD [OF assms(2)]
  show "\<And>a. a \<in> S \<Longrightarrow> c a a = 0"
    by (metis eq d(1))
  show "\<And>a b. a \<in> S \<Longrightarrow> b \<in> S \<Longrightarrow> c a b = 0 \<Longrightarrow> c b a = 0"
    by (metis eq d(2))
  show "\<And>a b e. a \<in> S \<Longrightarrow> b \<in> S \<Longrightarrow> e \<in> S \<Longrightarrow> c a b = 0 \<Longrightarrow> c b e = 0 \<Longrightarrow> c a e = 0"
    by (metis eq d(3))
  show "\<And>a b e. a \<in> S \<Longrightarrow> b \<in> S \<Longrightarrow> e \<in> S \<Longrightarrow> c a b < 0 \<Longrightarrow> c b e < 0 \<Longrightarrow> c a e < 0"
    by (metis eq d(4))
  show "\<And>a b e. a \<in> S \<Longrightarrow> b \<in> S \<Longrightarrow> e \<in> S \<Longrightarrow> c a b > 0 \<Longrightarrow> c b e > 0 \<Longrightarrow> c a e > 0"
    by (metis eq d(5))
qed

lemma consistent_on_names:
  assumes "consistent_comparator lc (f ` S)"
  shows "consistent_comparator (\<lambda>a b. lc (f a) (f b)) S"
proof (rule consistent_comparatorI)
  note d = consistent_comparatorD [OF assms]
  show "\<And>a. a \<in> S \<Longrightarrow> lc (f a) (f a) = 0"
    by (metis d(1) imageI)
  show "\<And>a b. a \<in> S \<Longrightarrow> b \<in> S \<Longrightarrow> lc (f a) (f b) = 0 \<Longrightarrow> lc (f b) (f a) = 0"
    by (metis d(2) imageI)
  show "\<And>a b e. a \<in> S \<Longrightarrow> b \<in> S \<Longrightarrow> e \<in> S \<Longrightarrow> lc (f a) (f b) = 0 \<Longrightarrow> lc (f b) (f e) = 0
          \<Longrightarrow> lc (f a) (f e) = 0"
    by (metis d(3) imageI)
  show "\<And>a b e. a \<in> S \<Longrightarrow> b \<in> S \<Longrightarrow> e \<in> S \<Longrightarrow> lc (f a) (f b) < 0 \<Longrightarrow> lc (f b) (f e) < 0
          \<Longrightarrow> lc (f a) (f e) < 0"
    by (metis d(4) imageI)
  show "\<And>a b e. a \<in> S \<Longrightarrow> b \<in> S \<Longrightarrow> e \<in> S \<Longrightarrow> lc (f a) (f b) > 0 \<Longrightarrow> lc (f b) (f e) > 0
          \<Longrightarrow> lc (f a) (f e) > 0"
    by (metis d(5) imageI)
qed

lemma SortCompare_Asc:
  "SortCompare (comparePlugins rt k Asc) a b =
     (case k of
        Installs \<Rightarrow> installCount a - installCount b
      | Name \<Rightarrow> localeCompare rt (name a) (name b)
      | Date \<Rightarrow> (case minus_number (dateOf rt a) (dateOf rt b) of None \<Rightarrow> 0 | Some v \<Rightarrow> v))"
  by (cases k) (simp_all add: SortCompare_def comparePlugins_def)

lemma SortCompare_Desc:
  "SortCompare (comparePlugins rt k Desc) a b = - SortCompare (comparePlugins rt k Asc) a b"
  by (cases k) (simp_all add: SortCompare_def comparePlugins_def split: option.splits)

lemma consistent_comparePlugins_Asc:
  assumes "k = Date \<longrightarrow> (\<forall>p \<in> S. dateOf rt p \<noteq> None)"
    and "k = Name \<longrightarrow> consistent_comparator (localeCompare rt) (name ` S)"
  shows "consistent_comparator (SortCompare (comparePlugins rt k Asc)) S"
proof (cases k)
  case Installs
  have "consistent_comparator (\<lambda>a b. installCount a - installCount b) S"
    by (rule consistent_key)
  then show ?thesis
    by (rule consistent_cong [rotated]) (simp add: SortCompare_Asc Installs)
next
  case Name
  with assms(2) have "consistent_comparator (\<lambda>a b. localeCompare rt (name a) (name b)) S"
    by (simp add: consistent_on_names)
  then show ?thesis
    by (rule consistent_cong [rotated]) (simp add: SortCompare_Asc Name)
next
  case Date
  have "consistent_comparator (\<lambda>a b. the (dateOf rt a) - the (dateOf rt b)) S"
    by (rule consistent_key)
  then show ?thesis
  proof (rule consistent_cong [rotated])
    fix a b assume "a \<in> S" "b \<in> S"
    with assms(1) Date have "dateOf rt a \<noteq> None" "dateOf rt b \<noteq> None"
      by blast+
    then obtain x y where "dateOf rt a = Some x" "dateOf rt b = Some y"
      by (meson option.exhaust)
    then show "SortCompare (comparePlugins rt k Asc) a b = the (dateOf rt a) - the (dateOf rt b)"
      by (simp add: SortCompare_Asc Date minus_number_def)
  qed
qed

lemma consistent_comparePlugins:
  assumes "k = Date \<longrightarrow> (\<forall>p \<in> S. dateOf rt p \<noteq> None)"
    and "k = Name \<longrightarrow> consistent_comparator (localeCompare rt) (name ` S)"
  shows "consistent_comparator (SortCompare (comparePlugins rt k ord)) S"
proof (cases ord)
  case Asc
  with consistent_comparePlugins_Asc [OF assms] show ?thesis by simp
next
  case Desc
  have "consistent_comparator (\<lambda>a b. - SortCompare (comparePlugins rt k Asc) a b) S"
    using consistent_comparePlugins_Asc [OF assms] by (rule consistent_uminus)
  then show ?thesis
    by (rule consistent_cong [rotated]) (simp add: SortCompare_Desc Desc)
qed

subsection \<open>C8: \<open>sortPlugins\<close> copies, and is stable when its comparator is consistent\<close>

text \<open>
  Claim C8, as the code has it. For a valid array reference, \<open>sortPlugins\<close> returns the
  reference of a newly allocated array and every array of the store before the call,
  the input among them, is unchanged after it. On an engine whose \<open>sort\<close> is what the
  language promises, the new array holds the same records as the input and any group
  of records that compare equal under the comparator stands in the output in its input
  order, in both directions: for the key installs, for the key name when
  \<open>localeCompare\<close> is a consistent comparison of the names (as the language requires of
  it), and for the key date when the timestamp of every record of the input is a date.
\<close>

theorem sortPlugins_stable_nonmutating:
  assumes "ref < length st"
    and "conforming_sort (sort rt)"
    and "k = Date \<longrightarrow> (\<forall>p \<in> set (st ! ref). dateOf rt p \<noteq> None)"
    and "k = Name \<longrightarrow> consistent_comparator (localeCompare rt) (name ` set (st ! ref))"
    and "\<forall>a b. P a \<and> P b \<longrightarrow> SortCompare (comparePlugins rt k ord) a b = 0"
  shows "\<exists>sorted st'. sortPlugins_store rt st ref k ord = Some (sorted, st')
           \<and> sorted \<noteq> ref
           \<and> (\<forall>r < length st. st' ! r = st ! r)
           \<and> st' ! sorted = sortPlugins rt (st ! ref) k ord
           \<and> length (st' ! sorted) = length (st ! ref)
           \<and> set (st' ! sorted) = set (st ! ref)
           \<and> filter P (st' ! sorted) = filter P (st ! ref)"
proof -
  let ?c = "SortCompare (comparePlugins rt k ord)"
  let ?out = "sort rt ?c (st ! ref)"
  let ?st' = "(st @ [st ! ref])[length st := ?out]"
  have "consistent_comparator ?c (set (st ! ref))"
    using assms(3,4) by (rule consistent_comparePlugins)
  with assms(2) have out: "?out = js_sort ?c (st ! ref)"
    by (simp add: conforming_sort_def)
  have eq: "sortPlugins_store rt st ref k ord = Some (length st, ?st')"
    using assms(1) by (simp add: sortPlugins_store_def Let_def)
  have new: "?st' ! length st = ?out" by simp
  have old: "\<forall>r < length st. ?st' ! r = st ! r" by (simp add: nth_append)
  have stable: "filter P (js_sort ?c (st ! ref)) = filter P (st ! ref)"
    using assms(5) by (intro filter_js_sort) simp
  from eq new old stable assms(1) show ?thesis
    by (simp add: sortPlugins_def out length_js_sort set_js_sort)
qed

text \<open>The theorem on three records, one never installed and two installed at the same
  time, sorted by date, descending.\<close>

theorem sortPlugins_stable_nonmutating_witness:
  "sortPlugins_store runtime_sample [plugins_sample] 0 Date Desc =
     Some (1, [plugins_sample,
               [plugin_playwright\<lparr>installCount := 7\<rparr>,
                plugin_playwright\<lparr>installCount := 5\<rparr>,
                plugin_context7\<lparr>installCount := 5\<rparr>]])
   \<and> map (dateOf runtime_sample) plugins_sample =
       [Some 0, Some 1735689600000, Some 1735689600000]
   \<and> filter (\<lambda>p. dateOf runtime_sample p = Some 1735689600000)
         (sortPlugins runtime_sample plugins_sample Date Desc)
       = filter (\<lambda>p. dateOf runtime_sample p = Some 1735689600000) plugins_sample"
proof -
  have h1: "(0::nat) < length [plugins_sample]" by simp
  have h2: "conforming_sort (sort runtime_sample)"
    by (simp add: conforming_sort_def runtime_sample_def)
  have d: "map (dateOf runtime_sample) plugins_sample =
       [Some 0, Some 1735689600000, Some 1735689600000]"
    by code_simp
  have h3: "Date = Date \<longrightarrow> (\<forall>p \<in> set ([plugins_sample] ! 0). dateOf runtime_sample p \<noteq> None)"
    using d by (auto simp: plugins_sample_def)
  have h4: "Date = Name \<longrightarrow>
      consistent_comparator (localeCompare runtime_sample) (name ` set ([plugins_sample] ! 0))"
    by simp
  have h5: "\<forall>a b. dateOf runtime_sample a = Some 1735689600000
                \<and> dateOf runtime_sample b = Some 1735689600000 \<longrightarrow>
              SortCompare (comparePlugins runtime_sample Date Desc) a b = 0"
    by (simp add: SortCompare_def comparePlugins_def minus_number_def)
  have e: "sortPlugins_store runtime_sample [plugins_sample] 0 Date Desc =
     Some (1, [plugins_sample,
               [plugin_playwright\<lparr>installCount := 7\<rparr>,
                plugin_playwright\<lparr>installCount := 5\<rparr>,
                plugin_context7\<lparr>installCount := 5\<rparr>]])"
    by code_simp
  from sortPlugins_stable_nonmutating [OF h1 h2 h3 h4 h5]
  obtain sorted st' where
    b: "st' ! sorted = sortPlugins runtime_sample ([plugins_sample] ! 0) Date Desc"
    and c: "filter (\<lambda>p. dateOf runtime_sample p = Some 1735689600000) (st' ! sorted)
            = filter (\<lambda>p. dateOf runtime_sample p = Some 1735689600000) ([plugins_sample] ! 0)"
    by blast
  from b c have "filter (\<lambda>p. dateOf runtime_sample p = Some 1735689600000)
        (sortPlugins runtime_sample plugins_sample Date Desc)
       = filter (\<lambda>p. dateOf runtime_sample p = Some 1735689600000) plugins_sample"
    by simp
  with e d show ?thesis by (intro conjI)
qed

text \<open>
  C8 as stated fails on Node.js: with the timestamp of \<open>p5\<close> no date, the comparison
  with \<open>p5\<close> is \<open>NaN\<close> both ways, the comparator is not consistent, and V8 moves \<open>p8\<close> in
  front of \<open>p6\<close>, which has the same timestamp and stood before it.
\<close>

theorem unparsable_date_unstable_counterexample:
  "map name plugins_unparsable_date =
     [''p1'', ''p2'', ''p3'', ''p4'', ''p5'', ''p6'', ''p7'', ''p8'']
   \<and> dateOf runtime_v8 (plugins_unparsable_date ! 4) = None
   \<and> dateOf runtime_v8 (plugins_unparsable_date ! 5) = Some 1735689600000
   \<and> dateOf runtime_v8 (plugins_unparsable_date ! 7) = Some 1735689600000
   \<and> SortCompare (comparePlugins runtime_v8 Date Asc)
        (plugins_unparsable_date ! 5) (plugins_unparsable_date ! 7) = 0
   \<and> map name (sortPlugins runtime_v8 plugins_unparsable_date Date Asc) =
       [''p8'', ''p1'', ''p2'', ''p3'', ''p4'', ''p5'', ''p6'', ''p7'']"
  by code_simp

subsection \<open>Toggling a plugin\<close>

lemma map_of_assign: "map_of (assign k v en) = (map_of en)(k \<mapsto> v)"
  by (induction en) (auto simp: fun_eq_iff)

lemma assign_back: "map_of en k = Some v \<Longrightarrow> assign k v (assign k v' en) = en"
  by (induction en) (auto split: if_splits)

lemma isPluginEnabled_Content:
  assumes "settingsFile d = Content s"
  shows "isPluginEnabled pid d =
           Inr (case (case enabledPlugins s of None \<Rightarrow> Map.empty | Some en \<Rightarrow> map_of en) pid of
                  None \<Rightarrow> False | Some b \<Rightarrow> b)"
  using assms by (simp add: isPluginEnabled_def getEnabledPlugins_def readSettings_def)

text \<open>One call of \<open>togglePlugin\<close> on a document that parses, on a disk that accepts the
  write.\<close>

lemma togglePlugin_Content:
  assumes "settingsFile d = Content s" and "settingsWriteError d = None"
  shows "togglePlugin pid d =
           (let s0 = ensure_enabledPlugins s;
                en = (case enabledPlugins s of None \<Rightarrow> [] | Some en \<Rightarrow> en);
                b = (case map_of en pid of None \<Rightarrow> False | Some b \<Rightarrow> b);
                s1 = s0\<lparr>enabledPlugins := Some (assign pid (\<not> b) en)\<rparr>
            in Inr (\<not> b, d\<lparr>settingsFile := Content s1,
                             settingsText := JSON_stringify s1 2 @ [CHR 0x0A]\<rparr>))"
  using assms
  by (cases "enabledPlugins s")
     (simp_all add: togglePlugin_def isPluginEnabled_Content setPluginEnabled_def
        readSettings_def writeSettings_def writeJsonFile_settings_def ensure_enabledPlugins_def
        Let_def)

lemma otherKeys_ensure: "otherKeys (ensure_enabledPlugins s) = otherKeys s"
  by (cases "enabledPlugins s") (simp_all add: ensure_enabledPlugins_def otherKeys_def)

lemma ensure_Some: "enabledPlugins s = Some en \<Longrightarrow> ensure_enabledPlugins s = s"
  by (simp add: ensure_enabledPlugins_def)

lemma ensure_update:
  "ensure_enabledPlugins (s\<lparr>enabledPlugins := Some en\<rparr>) = s\<lparr>enabledPlugins := Some en\<rparr>"
  by (simp add: ensure_enabledPlugins_def)

subsection \<open>C9: toggling twice\<close>

text \<open>
  Claim C9, as the code has it. For a plugin id \<open>name@marketplace\<close> and every settings
  document that parses, on a disk that accepts the write, two calls of \<open>togglePlugin\<close>
  succeed, and the enabled state read by \<open>isPluginEnabled\<close> flips after the first and is
  back at its original value after the second. The document then has the same other
  keys, with the same values in the same order, as before, but its text is the one
  \<open>JSON.stringify(document, null, 2)\<close> gives, followed by a line feed, whatever the text
  was before; nothing else on the disk changes. The text, and with it the bytes of the
  other keys, is the one before the first call when that text was already of this form
  and the plugin id was already a key of \<open>enabledPlugins\<close>.
\<close>

theorem toggle_twice_restores:
  assumes "settingsFile d = Content s" and "settingsWriteError d = None"
    and "CHR ''@'' \<in> set pid"
  shows "\<exists>b1 d1 b2 d2 s2.
           togglePlugin pid d = Inr (b1, d1) \<and> togglePlugin pid d1 = Inr (b2, d2)
           \<and> isPluginEnabled pid d = Inr b2
           \<and> isPluginEnabled pid d1 = Inr (\<not> b2)
           \<and> isPluginEnabled pid d2 = isPluginEnabled pid d
           \<and> settingsFile d2 = Content s2 \<and> otherKeys s2 = otherKeys s
           \<and> settingsText d2 = JSON_stringify s2 2 @ [CHR 0x0A]
           \<and> d2 = d\<lparr>settingsFile := Content s2, settingsText := settingsText d2\<rparr>
           \<and> ((\<exists>en. enabledPlugins s = Some en \<and> pid \<in> fst ` set en)
                \<and> settingsText d = JSON_stringify s 2 @ [CHR 0x0A]
                \<longrightarrow> s2 = s \<and> settingsText d2 = settingsText d \<and> d2 = d)"
proof -
  let ?s0 = "ensure_enabledPlugins s"
  let ?en = "case enabledPlugins s of None \<Rightarrow> [] | Some en \<Rightarrow> en"
  let ?b = "case map_of ?en pid of None \<Rightarrow> False | Some b \<Rightarrow> b"
  let ?en1 = "assign pid (\<not> ?b) ?en"
  let ?s1 = "?s0\<lparr>enabledPlugins := Some ?en1\<rparr>"
  let ?d1 = "d\<lparr>settingsFile := Content ?s1, settingsText := JSON_stringify ?s1 2 @ [CHR 0x0A]\<rparr>"
  let ?en2 = "assign pid ?b ?en1"
  let ?s2 = "?s0\<lparr>enabledPlugins := Some ?en2\<rparr>"
  let ?d2 = "d\<lparr>settingsFile := Content ?s2, settingsText := JSON_stringify ?s2 2 @ [CHR 0x0A]\<rparr>"
  have t1: "togglePlugin pid d = Inr (\<not> ?b, ?d1)"
    using togglePlugin_Content [OF assms(1,2), of pid] by (simp add: Let_def)
  have c1: "settingsFile ?d1 = Content ?s1" and w1: "settingsWriteError ?d1 = None"
    using assms(2) by simp_all
  have b1: "(case map_of ?en1 pid of None \<Rightarrow> False | Some b \<Rightarrow> b) = (\<not> ?b)"
    by (simp add: map_of_assign)
  have t2: "togglePlugin pid ?d1 = Inr (?b, ?d2)"
    using togglePlugin_Content [OF c1 w1, of pid] b1 by (simp add: Let_def ensure_update)
  have e0: "isPluginEnabled pid d = Inr ?b"
    using isPluginEnabled_Content [OF assms(1), of pid] by (simp split: option.splits)
  have e1: "isPluginEnabled pid ?d1 = Inr (\<not> ?b)"
    using isPluginEnabled_Content [OF c1, of pid] b1 by simp
  have c2: "settingsFile ?d2 = Content ?s2" by simp
  have e2: "isPluginEnabled pid ?d2 = isPluginEnabled pid d"
    using isPluginEnabled_Content [OF c2, of pid] e0 by (simp add: map_of_assign)
  have k: "otherKeys ?s2 = otherKeys s"
    using otherKeys_ensure [of s] by (simp add: otherKeys_def)
  have x: "settingsText ?d2 = JSON_stringify ?s2 2 @ [CHR 0x0A]" by simp
  have d: "?d2 = d\<lparr>settingsFile := Content ?s2, settingsText := settingsText ?d2\<rparr>" by simp
  have same: "?s2 = s \<and> settingsText ?d2 = settingsText d \<and> ?d2 = d"
    if en: "enabledPlugins s = Some en" and key: "pid \<in> fst ` set en"
      and text0: "settingsText d = JSON_stringify s 2 @ [CHR 0x0A]" for en
  proof -
    from key obtain v where v: "map_of en pid = Some v"
      by (metis domD dom_map_of_conv_image_fst)
    have "?en2 = en" using en v by (simp add: assign_back)
    with en have s: "?s2 = s" by (simp add: ensure_Some)
    with text0 assms(1) show ?thesis by simp
  qed
  have last: "(\<exists>en. enabledPlugins s = Some en \<and> pid \<in> fst ` set en)
                \<and> settingsText d = JSON_stringify s 2 @ [CHR 0x0A]
              \<longrightarrow> ?s2 = s \<and> settingsText ?d2 = settingsText d \<and> ?d2 = d"
    using same by blast
  show ?thesis
    apply (rule exI [where x = "\<not> ?b"], rule exI [where x = ?d1])
    apply (rule exI [where x = ?b], rule exI [where x = ?d2], rule exI [where x = ?s2])
    using t1 t2 e0 e1 e2 c2 k x d last by (intro conjI)
qed

text \<open>The theorem on the sample settings, which enable
  \<open>context7@claude-plugins-official\<close>, hold the unrelated key \<open>theme\<close> and were written by
  this program.\<close>

theorem toggle_twice_restores_witness:
  "isPluginEnabled ''context7@claude-plugins-official'' disk_official = Inr True
   \<and> map_sum id fst (togglePlugin ''context7@claude-plugins-official'' disk_official) = Inr False
   \<and> (\<exists>b1 d1 b2 d2 s2.
         togglePlugin ''context7@claude-plugins-official'' disk_official = Inr (b1, d1)
         \<and> togglePlugin ''context7@claude-plugins-official'' d1 = Inr (b2, d2)
         \<and> isPluginEnabled ''context7@claude-plugins-official'' d1 = Inr False
         \<and> isPluginEnabled ''context7@claude-plugins-official'' d2 = Inr True
         \<and> settingsFile d2 = Content s2
         \<and> otherKeys s2 = [(''theme'', JString ''dark'')]
         \<and> settingsText d2 = JSON_stringify s2 2 @ [CHR 0x0A]
         \<and> d2 = disk_official)"
proof -
  let ?pid = "''context7@claude-plugins-official''"
  have h1: "settingsFile disk_official = Content settings_enabled"
    by (simp add: disk_official_def)
  have h2: "settingsWriteError disk_official = None"
    by (simp add: disk_official_def)
  have h3: "CHR ''@'' \<in> set ?pid" by simp
  have e: "isPluginEnabled ?pid disk_official = Inr True"
    by (simp add: isPluginEnabled_Content [OF h1] settings_enabled_def)
  have k: "otherKeys settings_enabled = [(''theme'', JString ''dark'')]"
    by (simp add: otherKeys_def settings_enabled_def)
  have p: "(\<exists>en. enabledPlugins settings_enabled = Some en \<and> ?pid \<in> fst ` set en)
           \<and> settingsText disk_official = JSON_stringify settings_enabled 2 @ [CHR 0x0A]"
    by (simp add: settings_enabled_def disk_official_def)
  from toggle_twice_restores [OF h1 h2 h3] obtain b1 d1 b2 d2 s2 where
    t: "togglePlugin ?pid disk_official = Inr (b1, d1)" "togglePlugin ?pid d1 = Inr (b2, d2)"
    and i: "isPluginEnabled ?pid disk_official = Inr b2" "isPluginEnabled ?pid d1 = Inr (\<not> b2)"
      "isPluginEnabled ?pid d2 = isPluginEnabled ?pid disk_official"
    and s: "settingsFile d2 = Content s2" "otherKeys s2 = otherKeys settings_enabled"
      "settingsText d2 = JSON_stringify s2 2 @ [CHR 0x0A]"
    and l: "(\<exists>en. enabledPlugins settings_enabled = Some en \<and> ?pid \<in> fst ` set en)
             \<and> settingsText disk_official = JSON_stringify settings_enabled 2 @ [CHR 0x0A]
            \<longrightarrow> s2 = settings_enabled \<and> settingsText d2 = settingsText disk_official
                \<and> d2 = disk_official"
    by blast
  from i(1) e have b2: "b2 = True" by simp
  from t(1) have f: "map_sum id fst (togglePlugin ?pid disk_official) = Inr b1" by simp
  have b1: "b1 = False"
    using t(1) togglePlugin_Content [OF h1 h2, of ?pid]
    by (simp add: Let_def settings_enabled_def)
  from l p have d2: "d2 = disk_official" by blast
  show ?thesis
    using e f b1 t i b2 s k d2 by (intro conjI exI [where x = b1] exI [where x = d1]
        exI [where x = b2] exI [where x = d2] exI [where x = s2]) simp_all
qed

text \<open>
  C9 as stated fails on a settings document that was not written by this program: the
  text below is the document without any blank, it enables the plugin before the first
  call and after the second, and the member \<open>permissions\<close>, which no call touches, has
  other bytes after the second call than before the first.
\<close>

theorem compact_settings_rewritten_counterexample:
  \<open>settingsFile disk_compact_settings = Content settings_compact
   \<and> settingsText disk_compact_settings = settings_compact_text
   \<and> settings_compact_text = JSON_stringify settings_compact 0
   \<and> isPluginEnabled ''context7@claude-plugins-official'' disk_compact_settings = Inr True
   \<and> isPluginEnabled ''context7@claude-plugins-official''
        (toggle_twice ''context7@claude-plugins-official'' disk_compact_settings) = Inr True
   \<and> settingsFile (toggle_twice ''context7@claude-plugins-official'' disk_compact_settings)
       = Content settings_compact
   \<and> settingsText (toggle_twice ''context7@claude-plugins-official'' disk_compact_settings)
       = settings_pretty_text
   \<and> settings_pretty_text \<noteq> settings_compact_text
   \<and> includes' settings_compact_text ''"permissions":{"allow":["Bash"]}''
   \<and> \<not> includes' settings_pretty_text ''"permissions":{"allow":["Bash"]}''\<close>
  by code_simp

end
